theory Spec2Isabelle
  imports Complex_Main
begin

section \<open>JavaScript numbers\<close>

text \<open>
  The server computes with JavaScript numbers. The model keeps the three special values
  that the arithmetic of \<^verbatim>\<open>generateCrashPoint\<close> can produce next to the finite ones
  and writes the IEEE rules for them out. Finite values are real numbers: rounding to
  the nearest double and the sign of zero are not modelled (the only zero divisor the
  server can produce is \<^verbatim>\<open>1 - 1\<close>, which is \<^verbatim>\<open>+0\<close>).
\<close>

datatype jsnum = Fin real | PosInf | NegInf | NaN

fun jsSub :: "jsnum \<Rightarrow> jsnum \<Rightarrow> jsnum" where
  "jsSub NaN _ = NaN"
| "jsSub _ NaN = NaN"
| "jsSub (Fin a) (Fin b) = Fin (a - b)"
| "jsSub (Fin a) PosInf = NegInf"
| "jsSub (Fin a) NegInf = PosInf"
| "jsSub PosInf PosInf = NaN"
| "jsSub PosInf _ = PosInf"
| "jsSub NegInf NegInf = NaN"
| "jsSub NegInf _ = NegInf"

fun jsNeg :: "jsnum \<Rightarrow> jsnum" where
  "jsNeg (Fin a) = Fin (- a)"
| "jsNeg PosInf = NegInf"
| "jsNeg NegInf = PosInf"
| "jsNeg NaN = NaN"

definition jsAdd :: "jsnum \<Rightarrow> jsnum \<Rightarrow> jsnum" where
  "jsAdd x y = jsSub x (jsNeg y)"

fun jsDiv :: "jsnum \<Rightarrow> jsnum \<Rightarrow> jsnum" where
  "jsDiv NaN _ = NaN"
| "jsDiv _ NaN = NaN"
| "jsDiv (Fin a) (Fin b) =
     (if b = 0 then (if a = 0 then NaN else if 0 < a then PosInf else NegInf)
      else Fin (a / b))"
| "jsDiv (Fin a) _ = Fin 0"
| "jsDiv PosInf (Fin b) = (if 0 \<le> b then PosInf else NegInf)"
| "jsDiv NegInf (Fin b) = (if 0 \<le> b then NegInf else PosInf)"
| "jsDiv _ _ = NaN"

fun jsMul :: "jsnum \<Rightarrow> jsnum \<Rightarrow> jsnum" where
  "jsMul NaN _ = NaN"
| "jsMul _ NaN = NaN"
| "jsMul (Fin a) (Fin b) = Fin (a * b)"
| "jsMul (Fin a) PosInf = (if a = 0 then NaN else if 0 < a then PosInf else NegInf)"
| "jsMul (Fin a) NegInf = (if a = 0 then NaN else if 0 < a then NegInf else PosInf)"
| "jsMul PosInf (Fin b) = (if b = 0 then NaN else if 0 < b then PosInf else NegInf)"
| "jsMul NegInf (Fin b) = (if b = 0 then NaN else if 0 < b then NegInf else PosInf)"
| "jsMul PosInf PosInf = PosInf"
| "jsMul NegInf NegInf = PosInf"
| "jsMul _ _ = NegInf"

text \<open>\<^verbatim>\<open>Math.max\<close> and \<^verbatim>\<open>Math.min\<close>: \<^verbatim>\<open>NaN\<close> if an argument is \<^verbatim>\<open>NaN\<close>.\<close>

fun mathMax :: "jsnum \<Rightarrow> jsnum \<Rightarrow> jsnum" where
  "mathMax NaN _ = NaN"
| "mathMax _ NaN = NaN"
| "mathMax PosInf _ = PosInf"
| "mathMax _ PosInf = PosInf"
| "mathMax NegInf y = y"
| "mathMax x NegInf = x"
| "mathMax (Fin a) (Fin b) = Fin (max a b)"

fun mathMin :: "jsnum \<Rightarrow> jsnum \<Rightarrow> jsnum" where
  "mathMin NaN _ = NaN"
| "mathMin _ NaN = NaN"
| "mathMin NegInf _ = NegInf"
| "mathMin _ NegInf = NegInf"
| "mathMin PosInf y = y"
| "mathMin x PosInf = x"
| "mathMin (Fin a) (Fin b) = Fin (min a b)"

text \<open>The comparison \<^verbatim>\<open>x >= y\<close>: false as soon as an operand is \<^verbatim>\<open>NaN\<close>.\<close>

fun jsGe :: "jsnum \<Rightarrow> jsnum \<Rightarrow> bool" where
  "jsGe NaN _ = False"
| "jsGe _ NaN = False"
| "jsGe PosInf _ = True"
| "jsGe _ NegInf = True"
| "jsGe NegInf _ = False"
| "jsGe _ PosInf = False"
| "jsGe (Fin a) (Fin b) = (b \<le> a)"

text \<open>The comparison \<^verbatim>\<open>x < y\<close>.\<close>

fun jsLt :: "jsnum \<Rightarrow> jsnum \<Rightarrow> bool" where
  "jsLt NaN _ = False"
| "jsLt _ NaN = False"
| "jsLt PosInf _ = False"
| "jsLt _ NegInf = False"
| "jsLt NegInf _ = True"
| "jsLt _ PosInf = True"
| "jsLt (Fin a) (Fin b) = (a < b)"

section \<open>Crash point generation\<close>

text \<open>
  \<^verbatim>\<open>parseInt(s, 16)\<close> on a string of hexadecimal digits: the digits of the longest
  prefix of hexadecimal digits, most significant first, and \<^verbatim>\<open>NaN\<close>
  when that prefix is empty. White space, a sign and a \<^verbatim>\<open>0x\<close> prefix, which
  \<^verbatim>\<open>parseInt\<close> also accepts, cannot occur in a hexadecimal digest and are left out.
\<close>

definition hexDigit :: "char \<Rightarrow> nat option" where
  "hexDigit c =
     (let n = of_char c :: nat in
      if 48 \<le> n \<and> n \<le> 57 then Some (n - 48)
      else if 97 \<le> n \<and> n \<le> 102 then Some (n - 87)
      else if 65 \<le> n \<and> n \<le> 70 then Some (n - 55)
      else None)"

fun hexPrefix :: "nat \<Rightarrow> string \<Rightarrow> nat" where
  "hexPrefix acc [] = acc"
| "hexPrefix acc (c # cs) =
     (case hexDigit c of None \<Rightarrow> acc | Some d \<Rightarrow> hexPrefix (16 * acc + d) cs)"

definition parseInt16 :: "string \<Rightarrow> jsnum" where
  "parseInt16 s =
     (case s of [] \<Rightarrow> NaN
      | c # cs \<Rightarrow> (case hexDigit c of None \<Rightarrow> NaN | Some d \<Rightarrow> Fin (real (hexPrefix 0 s))))"

text \<open>\<^verbatim>\<open>hash.substring(0, 8)\<close>.\<close>

definition substring08 :: "string \<Rightarrow> string" where
  "substring08 h = take 8 h"

text \<open>
  The digest that \<^verbatim>\<open>crypto.createHash("sha256").update(seed).digest("hex")\<close> returns is
  64 lower-case hexadecimal digits. SHA-256 belongs to the platform, not to the server:
  the functions below take the digest \<open>hash\<close> of the seed as their argument.
\<close>

definition lowerHex :: "char \<Rightarrow> bool" where
  "lowerHex c \<longleftrightarrow> c \<in> set ''0123456789abcdef''"

definition isHexDigest :: "string \<Rightarrow> bool" where
  "isHexDigest h \<longleftrightarrow> length h = 64 \<and> list_all lowerHex h"

definition randomValue :: "string \<Rightarrow> jsnum" where
  "randomValue hash = jsDiv (parseInt16 (substring08 hash)) (Fin 4294967295)"

definition rawCrashPoint :: "string \<Rightarrow> jsnum" where
  "rawCrashPoint hash =
     mathMax (Fin 1.01) (jsMul (jsDiv (Fin 1) (jsSub (Fin 1) (randomValue hash))) (Fin 0.99))"

definition generateCrashPoint :: "string \<Rightarrow> string \<Rightarrow> jsnum \<times> string" where
  "generateCrashPoint seed hash = (mathMin (rawCrashPoint hash) (Fin 100), seed)"

section \<open>Data model\<close>

datatype crypto = BTC | ETH

definition cryptoName :: "crypto \<Rightarrow> string" where
  "cryptoName c = (case c of BTC \<Rightarrow> ''BTC'' | ETH \<Rightarrow> ''ETH'')"

text \<open>\<^verbatim>\<open>["BTC", "ETH"].includes(cryptoType)\<close>, with the asset it names.\<close>

definition cryptoOf :: "string \<Rightarrow> crypto option" where
  "cryptoOf s = (if s = ''BTC'' then Some BTC else if s = ''ETH'' then Some ETH else None)"

text \<open>An entry of \<^verbatim>\<open>gameState.players\<close>.\<close>

record bet =
  usdAmount :: real
  cryptoAmount :: jsnum
  cryptoType :: crypto
  priceAtTime :: real

text \<open>
  An entry of \<^verbatim>\<open>gameState.cashedOut\<close>; the source calls the first field
  \<^verbatim>\<open>multiplier\<close>.
\<close>

record cashoutEntry =
  atMultiplier :: real
  payout :: jsnum
  usdPayout :: jsnum

record gameState =
  isActive :: bool
  roundId :: "string option"
  startTime :: "int option"
  multiplier :: real
  crashPoint :: "jsnum option"
  seed :: "string option"
  players :: "string \<rightharpoonup> bet"
  cashedOut :: "string \<rightharpoonup> cashoutEntry"
  isBettingOpen :: bool

record wallet =
  username :: string
  balances :: "crypto \<Rightarrow> jsnum"
  createdAt :: "int option"

text \<open>
  A document of the \<^verbatim>\<open>rounds\<close> collection. The source stores the entries of
  \<^verbatim>\<open>gameState.players\<close> as an array; the model stores the mapping.
\<close>

record roundDoc =
  docRoundId :: "string option"
  docCrashPoint :: "jsnum option"
  docSeed :: "string option"
  docStartTime :: "int option"
  docEndTime :: int
  docPlayers :: "string \<rightharpoonup> bet"

text \<open>
  The database \<^verbatim>\<open>db\<close>: the \<^verbatim>\<open>wallets\<close> collection, looked up by user name, and
  the \<^verbatim>\<open>rounds\<close> collection. A call to the database either returns or throws; which
  of the two is an input of the model.
\<close>

record store =
  wallets :: "string \<rightharpoonup> wallet"
  rounds :: "roundDoc list"

datatype dbResult = DbOk | DbThrows

text \<open>JSON values of the payloads that the server sends.\<close>

datatype jsval =
    JNum jsnum
  | JStr string
  | JBool bool
  | JNull
  | JObj "(string \<times> jsval) list"

text \<open>
  What the server sends: \<^verbatim>\<open>io.emit(name, payload)\<close> to every client,
  \<^verbatim>\<open>socket.emit(name, payload)\<close> to one socket, and
  \<^verbatim>\<open>res.status(code).json(body)\<close> to the HTTP request with the given number.
\<close>

datatype outMsg =
    Emit string "(string \<times> jsval) list"
  | SocketEmit nat string "(string \<times> jsval) list"
  | Respond nat nat "(string \<times> jsval) list"

text \<open>The callbacks given to \<^verbatim>\<open>setTimeout\<close>, each pending with its delay.\<close>

datatype timer = UpdateMultiplier | BettingOpen | NewRound

text \<open>The body of \<^verbatim>\<open>POST /api/bet\<close>.\<close>

record betRequest =
  reqUsername :: string
  reqUsdAmount :: real
  reqCryptoType :: string

text \<open>
  A handler that waits for the database at an \<^verbatim>\<open>await\<close> is suspended with its local
  variables, and other callbacks run before it resumes:
  \<^item> \<open>BetAwaitWallet\<close>: the bet handler at \<^verbatim>\<open>await getOrCreateWallet(username)\<close>;
  \<^item> \<open>BetAwaitDebit\<close>: the bet handler at \<^verbatim>\<open>await ... updateOne\<close>, the debit;
  \<^item> \<open>CashoutAwaitCredit\<close>: the cashout handler at \<^verbatim>\<open>await ... updateOne\<close>, the credit,
    holding \<^verbatim>\<open>bet\<close>, \<^verbatim>\<open>payout\<close> and \<^verbatim>\<open>usdPayout\<close>.
\<close>

datatype continuation =
    BetAwaitWallet nat betRequest crypto jsnum
  | BetAwaitDebit nat betRequest crypto jsnum
  | CashoutAwaitCredit nat string bet jsnum jsnum

text \<open>
  The state of the server: the global variables \<^verbatim>\<open>gameState\<close>, \<^verbatim>\<open>cryptoPrices\<close> and
  \<^verbatim>\<open>db\<close> (\<open>None\<close> when the server runs without a database), the pending timers, the
  suspended handlers, and everything sent so far.
\<close>

record world =
  gameState :: gameState
  cryptoPrices :: "crypto \<Rightarrow> real"
  db :: "store option"
  timers :: "(timer \<times> nat) list"
  suspended :: "continuation list"
  outbox :: "outMsg list"

definition emit :: "outMsg \<Rightarrow> world \<Rightarrow> world" where
  "emit out w = w\<lparr>outbox := outbox w @ [out]\<rparr>"

definition setTimeout :: "timer \<Rightarrow> nat \<Rightarrow> world \<Rightarrow> world" where
  "setTimeout t ms w = w\<lparr>timers := timers w @ [(t, ms)]\<rparr>"

definition suspend :: "continuation \<Rightarrow> world \<Rightarrow> world" where
  "suspend k w = w\<lparr>suspended := suspended w @ [k]\<rparr>"

definition jsRoundId :: "gameState \<Rightarrow> jsval" where
  "jsRoundId gs = (case roundId gs of None \<Rightarrow> JNull | Some r \<Rightarrow> JStr r)"

definition jsCrashPoint :: "gameState \<Rightarrow> jsval" where
  "jsCrashPoint gs = (case crashPoint gs of None \<Rightarrow> JNull | Some c \<Rightarrow> JNum c)"

text \<open>The global variables as the module initialises them.\<close>

definition initialGameState :: gameState where
  "initialGameState =
     \<lparr>isActive = False, roundId = None, startTime = None, multiplier = 1,
      crashPoint = None, seed = None, players = Map.empty, cashedOut = Map.empty,
      isBettingOpen = False\<rparr>"

definition fallbackPrices :: "crypto \<Rightarrow> real" where
  "fallbackPrices c = (case c of BTC \<Rightarrow> 65000 | ETH \<Rightarrow> 3500)"

definition initialWorld :: "store option \<Rightarrow> world" where
  "initialWorld d =
     \<lparr>gameState = initialGameState, cryptoPrices = fallbackPrices, db = d,
      timers = [], suspended = [], outbox = []\<rparr>"

section \<open>Wallets\<close>

definition defaultBalances :: "crypto \<Rightarrow> jsnum" where
  "defaultBalances c = (case c of BTC \<Rightarrow> Fin 0.01 | ETH \<Rightarrow> Fin 1.0)"

text \<open>The wallet \<^verbatim>\<open>{ username, balances: { BTC: 0.01, ETH: 1.0 } }\<close>.\<close>

definition mockWallet :: "string \<Rightarrow> wallet" where
  "mockWallet u = \<lparr>username = u, balances = defaultBalances, createdAt = None\<rparr>"

text \<open>
  The calls to the \<^verbatim>\<open>wallets\<close> collection. A thrown error is \<open>Inl\<close>.
  \<^verbatim>\<open>updateOne({ username }, { $inc: { ["balances." + c]: d } })\<close> changes nothing when
  no wallet of that name is stored.
\<close>

definition findOne :: "dbResult \<Rightarrow> store \<Rightarrow> string \<Rightarrow> string + wallet option" where
  "findOne r st u = (case r of DbThrows \<Rightarrow> Inl ''findOne'' | DbOk \<Rightarrow> Inr (wallets st u))"

definition insertOne :: "dbResult \<Rightarrow> store \<Rightarrow> wallet \<Rightarrow> string + store" where
  "insertOne r st wal =
     (case r of DbThrows \<Rightarrow> Inl ''insertOne''
      | DbOk \<Rightarrow> Inr (st\<lparr>wallets := (wallets st)(username wal \<mapsto> wal)\<rparr>))"

definition incBalance :: "store \<Rightarrow> string \<Rightarrow> crypto \<Rightarrow> jsnum \<Rightarrow> store" where
  "incBalance st u c d =
     (case wallets st u of None \<Rightarrow> st
      | Some wal \<Rightarrow>
          st\<lparr>wallets := (wallets st)
            (u \<mapsto> wal\<lparr>balances := (balances wal)(c := jsAdd (balances wal c) d)\<rparr>)\<rparr>)"

definition updateOne :: "dbResult \<Rightarrow> store \<Rightarrow> string \<Rightarrow> crypto \<Rightarrow> jsnum \<Rightarrow> string + store" where
  "updateOne r st u c d =
     (case r of DbThrows \<Rightarrow> Inl ''updateOne'' | DbOk \<Rightarrow> Inr (incBalance st u c d))"

text \<open>
  What the database does while a handler waits for it: the outcome of each call and the
  date of \<^verbatim>\<open>new Date()\<close>.
\<close>

record ioEnv =
  findOneR :: dbResult
  insertOneR :: dbResult
  updateOneR :: dbResult
  ioNow :: int

text \<open>The \<^verbatim>\<open>try\<close> block of \<^verbatim>\<open>getOrCreateWallet\<close>.\<close>

definition walletLookup :: "ioEnv \<Rightarrow> store \<Rightarrow> string \<Rightarrow> string + (wallet \<times> store)" where
  "walletLookup io st u =
     (case findOne (findOneR io) st u of
        Inl e \<Rightarrow> Inl e
      | Inr (Some wal) \<Rightarrow> Inr (wal, st)
      | Inr None \<Rightarrow>
          (let wal = \<lparr>username = u, balances = defaultBalances, createdAt = Some (ioNow io)\<rparr>
           in case insertOne (insertOneR io) st wal of
                Inl e \<Rightarrow> Inl e
              | Inr st' \<Rightarrow> Inr (wal, st')))"

text \<open>
  \<^verbatim>\<open>getOrCreateWallet(username)\<close>: the wallet it returns and the database after it. The two
  calls it awaits are taken as one interaction with the database.
\<close>

definition getOrCreateWallet :: "ioEnv \<Rightarrow> store option \<Rightarrow> string \<Rightarrow> wallet \<times> store option" where
  "getOrCreateWallet io d u =
     (case d of
        None \<Rightarrow> (mockWallet u, None)
      | Some st \<Rightarrow>
          (case walletLookup io st u of
             Inl e \<Rightarrow> (mockWallet u, Some st)
           | Inr (wal, st') \<Rightarrow> (wal, Some st')))"

section \<open>Placing a bet\<close>

definition errorBody :: "string \<Rightarrow> (string \<times> jsval) list" where
  "errorBody msg = [(''success'', JBool False), (''error'', JStr msg)]"

text \<open>
  The checks of \<^verbatim>\<open>POST /api/bet\<close> in the order of the source, up to the conversion of
  the amount: the message of the first check that fails, or the asset and
  \<^verbatim>\<open>cryptoAmount\<close>. A field is missing when it is falsy: the empty string or \<open>0\<close>.
\<close>

definition betValidation :: "world \<Rightarrow> betRequest \<Rightarrow> string + (crypto \<times> jsnum)" where
  "betValidation w req =
     (if reqUsername req = [] \<or> reqUsdAmount req = 0 \<or> reqCryptoType req = []
      then Inl ''Missing required fields''
      else if reqUsdAmount req < 1 \<or> reqUsdAmount req > 1000
      then Inl ''Bet must be between $1 and $1000''
      else case cryptoOf (reqCryptoType req) of
        None \<Rightarrow> Inl ''Invalid crypto type''
      | Some c \<Rightarrow>
          if players (gameState w) (reqUsername req) \<noteq> None
          then Inl ''Already placed bet this round''
          else if isActive (gameState w)
          then Inl ''Betting is closed''
          else Inr (c, jsDiv (Fin (reqUsdAmount req)) (Fin (cryptoPrices w c))))"

text \<open>
  The end of the handler, from \<^verbatim>\<open>gameState.players.set\<close>: the bet is stored with the
  price of that moment, broadcast and answered.
\<close>

definition betAddToGame :: "nat \<Rightarrow> betRequest \<Rightarrow> crypto \<Rightarrow> jsnum \<Rightarrow> world \<Rightarrow> world" where
  "betAddToGame rid req c amount w =
     (let gs = gameState w;
          b = \<lparr>usdAmount = reqUsdAmount req, cryptoAmount = amount, cryptoType = c,
               priceAtTime = cryptoPrices w c\<rparr>;
          w1 = w\<lparr>gameState := gs\<lparr>players := (players gs)(reqUsername req \<mapsto> b)\<rparr>\<rparr>;
          w2 = emit (Emit ''playerBet''
                 [(''username'', JStr (reqUsername req)),
                  (''usdAmount'', JNum (Fin (reqUsdAmount req))),
                  (''cryptoType'', JStr (cryptoName c)),
                  (''roundId'', jsRoundId gs)]) w1
      in emit (Respond rid 200
           [(''success'', JBool True),
            (''data'', JObj
               [(''roundId'', jsRoundId gs),
                (''usdAmount'', JNum (Fin (reqUsdAmount req))),
                (''cryptoAmount'', JNum amount),
                (''cryptoType'', JStr (cryptoName c))])]) w2)"

text \<open>
  From the balance check to the debit: with a database the handler waits for
  \<^verbatim>\<open>updateOne\<close>, without one it goes on at once.
\<close>

definition betAfterWallet :: "nat \<Rightarrow> betRequest \<Rightarrow> crypto \<Rightarrow> jsnum \<Rightarrow> wallet \<Rightarrow> world \<Rightarrow> world" where
  "betAfterWallet rid req c amount wal w =
     (if jsLt (balances wal c) amount
      then emit (Respond rid 400 (errorBody ''Insufficient balance'')) w
      else case db w of
        None \<Rightarrow> betAddToGame rid req c amount w
      | Some st \<Rightarrow> suspend (BetAwaitDebit rid req c amount) w)"

text \<open>
  The \<^verbatim>\<open>try\<close> block around the debit: an error of \<^verbatim>\<open>updateOne\<close> is logged and the
  handler goes on.
\<close>

definition debitWallet :: "dbResult \<Rightarrow> store \<Rightarrow> string \<Rightarrow> crypto \<Rightarrow> jsnum \<Rightarrow> store" where
  "debitWallet r st u c amount =
     (case updateOne r st u c (jsNeg amount) of Inl e \<Rightarrow> st | Inr st' \<Rightarrow> st')"

text \<open>
  The handler of \<^verbatim>\<open>POST /api/bet\<close> for request number \<open>rid\<close>, up to its first wait for
  the database. Without a database \<^verbatim>\<open>getOrCreateWallet\<close> returns the mock wallet and
  the handler runs to its end.
\<close>

definition placeBet :: "nat \<Rightarrow> betRequest \<Rightarrow> world \<Rightarrow> world" where
  "placeBet rid req w =
     (case betValidation w req of
        Inl msg \<Rightarrow> emit (Respond rid 400 (errorBody msg)) w
      | Inr (c, amount) \<Rightarrow>
          (case db w of
             None \<Rightarrow> betAfterWallet rid req c amount (mockWallet (reqUsername req)) w
           | Some st \<Rightarrow> suspend (BetAwaitWallet rid req c amount) w))"

section \<open>Cashing out\<close>

text \<open>
  The end of the cashout handler, from \<^verbatim>\<open>gameState.cashedOut.set\<close>: the entry takes
  \<^verbatim>\<open>gameState.multiplier\<close> as it is then.
\<close>

definition cashoutRecord :: "nat \<Rightarrow> string \<Rightarrow> bet \<Rightarrow> jsnum \<Rightarrow> jsnum \<Rightarrow> world \<Rightarrow> world" where
  "cashoutRecord sock u b p usd w =
     (let gs = gameState w;
          entry = \<lparr>atMultiplier = multiplier gs, payout = p, usdPayout = usd\<rparr>;
          w1 = w\<lparr>gameState := gs\<lparr>cashedOut := (cashedOut gs)(u \<mapsto> entry)\<rparr>\<rparr>;
          w2 = emit (Emit ''playerCashout''
                 [(''username'', JStr u),
                  (''multiplier'', JNum (Fin (multiplier gs))),
                  (''payout'', JNum p),
                  (''usdPayout'', JNum usd),
                  (''cryptoType'', JStr (cryptoName (cryptoType b)))]) w1
      in emit (SocketEmit sock ''cashoutSuccess''
           [(''multiplier'', JNum (Fin (multiplier gs))),
            (''payout'', JNum p),
            (''usdPayout'', JNum usd),
            (''cryptoType'', JStr (cryptoName (cryptoType b)))]) w2)"

text \<open>The \<^verbatim>\<open>try\<close> block around the credit.\<close>

definition creditWallet :: "dbResult \<Rightarrow> store \<Rightarrow> string \<Rightarrow> crypto \<Rightarrow> jsnum \<Rightarrow> store" where
  "creditWallet r st u c p =
     (case updateOne r st u c p of Inl e \<Rightarrow> st | Inr st' \<Rightarrow> st')"

text \<open>
  The handler of the socket event \<^verbatim>\<open>cashout\<close> on socket \<open>sock\<close> for \<open>username\<close>, up to
  its wait for the database.
\<close>

definition cashout :: "nat \<Rightarrow> string \<Rightarrow> world \<Rightarrow> world" where
  "cashout sock u w =
     (case players (gameState w) u of
        None \<Rightarrow> emit (SocketEmit sock ''error'' [(''message'', JStr ''No bet placed'')]) w
      | Some b \<Rightarrow>
          if cashedOut (gameState w) u \<noteq> None
          then emit (SocketEmit sock ''error'' [(''message'', JStr ''Already cashed out'')]) w
          else
            (let p = jsMul (cryptoAmount b) (Fin (multiplier (gameState w)));
                 usd = jsMul p (Fin (cryptoPrices w (cryptoType b)))
             in case db w of
                  None \<Rightarrow> cashoutRecord sock u b p usd w
                | Some st \<Rightarrow> suspend (CashoutAwaitCredit sock u b p usd) w))"

text \<open>A suspended handler resumes when the database has answered.\<close>

fun resume :: "continuation \<Rightarrow> ioEnv \<Rightarrow> world \<Rightarrow> world" where
  "resume (BetAwaitWallet rid req c amount) io w =
     (case getOrCreateWallet io (db w) (reqUsername req) of
        (wal, d) \<Rightarrow> betAfterWallet rid req c amount wal (w\<lparr>db := d\<rparr>))"
| "resume (BetAwaitDebit rid req c amount) io w =
     betAddToGame rid req c amount
       (w\<lparr>db := map_option
          (\<lambda>st. debitWallet (updateOneR io) st (reqUsername req) c amount) (db w)\<rparr>)"
| "resume (CashoutAwaitCredit sock u b p usd) io w =
     cashoutRecord sock u b p usd
       (w\<lparr>db := map_option
          (\<lambda>st. creditWallet (updateOneR io) st u (cryptoType b) p) (db w)\<rparr>)"

section \<open>The round cycle\<close>

text \<open>Decimal digits of a number, for \<^verbatim>\<open>`round_${Date.now()}`\<close>.\<close>

definition digitChar :: "nat \<Rightarrow> char" where
  "digitChar d = ''0123456789'' ! d"

fun showNat :: "nat \<Rightarrow> string" where
  "showNat n =
     (if n < 10 then [digitChar n]
      else showNat (n div 10) @ [digitChar (n mod 10)])"

declare showNat.simps [simp del]

definition showInt :: "int \<Rightarrow> string" where
  "showInt i = (if i < 0 then CHR ''-'' # showNat (nat (- i)) else showNat (nat i))"

text \<open>
  What a run of \<^verbatim>\<open>updateMultiplier\<close> reads from outside: \<^verbatim>\<open>Date.now()\<close>, and for a
  crash the date \<^verbatim>\<open>new Date()\<close> and the outcome of saving the round.
\<close>

record tickEnv =
  tickNow :: int
  crashEnd :: int
  saveRound :: dbResult

text \<open>
  What \<^verbatim>\<open>startNewRound\<close> reads from outside: the seed
  \<^verbatim>\<open>crypto.randomBytes(32).toString("hex")\<close>, its SHA-256 digest, the two readings of
  \<^verbatim>\<open>Date.now()\<close>, and what its call of \<^verbatim>\<open>updateMultiplier\<close> reads.
\<close>

record roundEnv =
  newSeed :: string
  seedDigest :: string
  idNow :: int
  startNow :: int
  firstTick :: tickEnv

text \<open>The callback that \<^verbatim>\<open>crashGame\<close> schedules after 5000 ms.\<close>

definition bettingOpenCallback :: "world \<Rightarrow> world" where
  "bettingOpenCallback w =
     (let w1 = w\<lparr>gameState := (gameState w)\<lparr>players := Map.empty, cashedOut := Map.empty\<rparr>\<rparr>;
          w2 = emit (Emit ''bettingOpen''
                 [(''message'', JStr ''Place your bets now!''),
                  (''duration'', JNum (Fin 10000))]) w1;
          w3 = w2\<lparr>gameState := (gameState w2)\<lparr>isBettingOpen := True\<rparr>\<rparr>
      in setTimeout NewRound 10000 w3)"

text \<open>
  Saving the round: an error of \<^verbatim>\<open>insertOne\<close> is logged. Nothing of the handler runs
  after this call, so it is taken at once.
\<close>

definition saveRoundDoc :: "tickEnv \<Rightarrow> gameState \<Rightarrow> store \<Rightarrow> store" where
  "saveRoundDoc env gs st =
     (case saveRound env of
        DbThrows \<Rightarrow> st
      | DbOk \<Rightarrow>
          st\<lparr>rounds := rounds st @
            [\<lparr>docRoundId = roundId gs, docCrashPoint = crashPoint gs, docSeed = seed gs,
              docStartTime = startTime gs, docEndTime = crashEnd env,
              docPlayers = players gs\<rparr>]\<rparr>)"

definition crashGame :: "tickEnv \<Rightarrow> world \<Rightarrow> world" where
  "crashGame env w =
     (let w1 = w\<lparr>gameState := (gameState w)\<lparr>isActive := False\<rparr>\<rparr>;
          gs = gameState w1;
          w2 = emit (Emit ''roundCrash''
                 [(''roundId'', jsRoundId gs), (''crashPoint'', jsCrashPoint gs)]) w1;
          w3 = emit (Emit ''crashDisplay''
                 [(''crashPoint'', jsCrashPoint gs), (''roundId'', jsRoundId gs)]) w2;
          w4 = setTimeout BettingOpen 5000 w3
      in w4\<lparr>db := map_option (saveRoundDoc env gs) (db w4)\<rparr>)"

text \<open>
  \<^verbatim>\<open>(Date.now() - gameState.startTime) / 1000\<close>; a \<^verbatim>\<open>null\<close> start time counts as 0.
\<close>

definition elapsed :: "int \<Rightarrow> gameState \<Rightarrow> real" where
  "elapsed now gs =
     real_of_int (now - (case startTime gs of None \<Rightarrow> 0 | Some t \<Rightarrow> t)) / 1000"

text \<open>
  \<^verbatim>\<open>gameState.multiplier >= gameState.crashPoint\<close>; a \<^verbatim>\<open>null\<close> crash point counts
  as 0.
\<close>

definition reachedCrashPoint :: "gameState \<Rightarrow> bool" where
  "reachedCrashPoint gs =
     jsGe (Fin (multiplier gs)) (case crashPoint gs of None \<Rightarrow> Fin 0 | Some c \<Rightarrow> c)"

definition updateMultiplier :: "tickEnv \<Rightarrow> world \<Rightarrow> world" where
  "updateMultiplier env w =
     (if \<not> isActive (gameState w) then w
      else
        (let gs = gameState w;
             w1 = w\<lparr>gameState := gs\<lparr>multiplier := 1 + elapsed (tickNow env) gs * 0.1\<rparr>\<rparr>
         in if reachedCrashPoint (gameState w1) then crashGame env w1
            else
              setTimeout UpdateMultiplier 100
                (emit (Emit ''multiplierUpdate''
                   [(''roundId'', jsRoundId (gameState w1)),
                    (''multiplier'', JNum (Fin (multiplier (gameState w1))))]) w1)))"

text \<open>The object that \<^verbatim>\<open>startNewRound\<close> assigns to \<^verbatim>\<open>gameState\<close>.\<close>

definition newRoundState :: "roundEnv \<Rightarrow> gameState \<Rightarrow> gameState" where
  "newRoundState env gs =
     (case generateCrashPoint (newSeed env) (seedDigest env) of
        (cp, sd) \<Rightarrow>
          gs\<lparr>isActive := True,
             roundId := Some (''round_'' @ showInt (idNow env)),
             startTime := Some (startNow env),
             multiplier := 1,
             crashPoint := Some cp,
             seed := Some sd,
             isBettingOpen := False\<rparr>)"

definition startNewRound :: "roundEnv \<Rightarrow> world \<Rightarrow> world" where
  "startNewRound env w =
     (let w1 = w\<lparr>gameState := newRoundState env (gameState w)\<rparr>;
          w2 = emit (Emit ''roundStart''
                 [(''roundId'', jsRoundId (gameState w1)), (''multiplier'', JNum (Fin 1))]) w1
      in updateMultiplier (firstTick env) w2)"

text \<open>The callback that the betting window schedules after 10000 ms.\<close>

definition newRoundCallback :: "roundEnv \<Rightarrow> world \<Rightarrow> world" where
  "newRoundCallback env w =
     startNewRound env (w\<lparr>gameState := (gameState w)\<lparr>isBettingOpen := False\<rparr>\<rparr>)"

text \<open>The object \<^verbatim>\<open>cryptoPrices\<close> in a payload.\<close>

definition pricesJson :: "world \<Rightarrow> jsval" where
  "pricesJson w =
     JObj [(''BTC'', JNum (Fin (cryptoPrices w BTC))), (''ETH'', JNum (Fin (cryptoPrices w ETH)))]"

text \<open>\<^verbatim>\<open>fetchCryptoPrices\<close> when the request succeeds.\<close>

definition pricesFetched :: "real \<Rightarrow> real \<Rightarrow> world \<Rightarrow> world" where
  "pricesFetched btc eth w =
     (let w1 = w\<lparr>cryptoPrices := (\<lambda>c. case c of BTC \<Rightarrow> btc | ETH \<Rightarrow> eth)\<rparr>
      in emit (Emit ''priceUpdate'' [(''prices'', pricesJson w1)]) w1)"

text \<open>The handler of \<^verbatim>\<open>GET /api/prices\<close>.\<close>

definition getPrices :: "nat \<Rightarrow> world \<Rightarrow> world" where
  "getPrices rid w =
     emit (Respond rid 200
        [(''success'', JBool True), (''data'', JObj [(''prices'', pricesJson w)])]) w"

text \<open>
  The handler of \<^verbatim>\<open>POST /api/wallet/:username\<close>, from the answer of the database on:
  each balance with its value in dollars at the price of that moment.
\<close>

definition balanceWithUSD :: "world \<Rightarrow> wallet \<Rightarrow> crypto \<Rightarrow> string \<times> jsval" where
  "balanceWithUSD w wal c =
     (cryptoName c,
      JObj [(''amount'', JNum (balances wal c)),
            (''usdValue'', JNum (jsMul (balances wal c) (Fin (cryptoPrices w c))))])"

definition walletRequest :: "nat \<Rightarrow> string \<Rightarrow> ioEnv \<Rightarrow> world \<Rightarrow> world" where
  "walletRequest rid u io w =
     (case getOrCreateWallet io (db w) u of
        (wal, d) \<Rightarrow>
          emit (Respond rid 200
             [(''success'', JBool True),
              (''data'', JObj
                 [(''username'', JStr u),
                  (''balances'', JObj [balanceWithUSD w wal BTC, balanceWithUSD w wal ETH])])])
            (w\<lparr>db := d\<rparr>))"

text \<open>
  The handler of a new socket connection: the round that is running, if any, and the
  prices.
\<close>

definition onConnection :: "nat \<Rightarrow> world \<Rightarrow> world" where
  "onConnection sock w =
     (let gs = gameState w;
          w1 = (if isActive gs
                then emit (SocketEmit sock ''roundStart''
                       [(''roundId'', jsRoundId gs),
                        (''multiplier'', JNum (Fin (multiplier gs)))]) w
                else w)
      in emit (SocketEmit sock ''priceUpdate'' [(''prices'', pricesJson w)]) w1)"

section \<open>The event loop\<close>

text \<open>
  Node runs one callback at a time, each to its end or to its next wait for the
  database. An event is one such run:
  \<^item> \<open>InitGame\<close>: \<^verbatim>\<open>initializeGame\<close> reaches \<^verbatim>\<open>startNewRound\<close> (once, while no timer
    is pending);
  \<^item> \<open>TimerUpdate\<close>, \<open>TimerBettingOpen\<close>, \<open>TimerNewRound\<close>: a pending timer fires;
  \<^item> \<open>PricesFetched\<close>: new prices arrive;
  \<^item> \<open>BetRequest\<close>, \<open>CashoutRequest\<close>: a request arrives and its handler starts;
  \<^item> \<open>Resume k\<close>: the database answers the \<open>k\<close>-th suspended handler;
  \<^item> \<open>Connect\<close>, \<open>PricesRequest\<close>, \<open>WalletRequest\<close>: a client connects, asks for the
    prices, or asks for a wallet (taken when the database has answered).
  The seed and its digest are 64 hexadecimal digits each. \<^verbatim>\<open>POST /api/login\<close> reads
  and writes the collection \<^verbatim>\<open>users\<close> only and is left out.
\<close>

datatype event =
    InitGame roundEnv
  | TimerUpdate tickEnv
  | TimerBettingOpen
  | TimerNewRound roundEnv
  | PricesFetched real real
  | BetRequest nat betRequest
  | CashoutRequest nat string
  | Resume nat ioEnv
  | Connect nat
  | PricesRequest nat
  | WalletRequest nat string ioEnv

definition validRoundEnv :: "roundEnv \<Rightarrow> bool" where
  "validRoundEnv env \<longleftrightarrow> isHexDigest (newSeed env) \<and> isHexDigest (seedDigest env)"

definition fire :: "timer \<times> nat \<Rightarrow> world \<Rightarrow> world option" where
  "fire t w =
     (if t \<in> set (timers w) then Some (w\<lparr>timers := remove1 t (timers w)\<rparr>) else None)"

definition dropNth :: "nat \<Rightarrow> 'a list \<Rightarrow> 'a list" where
  "dropNth k xs = take k xs @ drop (Suc k) xs"

fun step :: "world \<Rightarrow> event \<Rightarrow> world option" where
  "step w (InitGame env) =
     (if timers w = [] \<and> validRoundEnv env then Some (startNewRound env w) else None)"
| "step w (TimerUpdate env) = map_option (updateMultiplier env) (fire (UpdateMultiplier, 100) w)"
| "step w TimerBettingOpen = map_option bettingOpenCallback (fire (BettingOpen, 5000) w)"
| "step w (TimerNewRound env) =
     (if validRoundEnv env then map_option (newRoundCallback env) (fire (NewRound, 10000) w)
      else None)"
| "step w (PricesFetched btc eth) = Some (pricesFetched btc eth w)"
| "step w (BetRequest rid req) = Some (placeBet rid req w)"
| "step w (CashoutRequest sock u) = Some (cashout sock u w)"
| "step w (Resume k io) =
     (if k < length (suspended w)
      then Some (resume (suspended w ! k) io (w\<lparr>suspended := dropNth k (suspended w)\<rparr>))
      else None)"
| "step w (Connect sock) = Some (onConnection sock w)"
| "step w (PricesRequest rid) = Some (getPrices rid w)"
| "step w (WalletRequest rid u io) = Some (walletRequest rid u io w)"

text \<open>A run of events from a world; \<open>None\<close> when an event cannot happen.\<close>

fun run :: "world \<Rightarrow> event list \<Rightarrow> world option" where
  "run w [] = Some w"
| "run w (ev # evs) = (case step w ev of None \<Rightarrow> None | Some w' \<Rightarrow> run w' evs)"

text \<open>The worlds that the server can be in, started with database \<open>d\<close> or without one.\<close>

inductive reachable :: "world \<Rightarrow> bool" where
  initial: "reachable (initialWorld d)"
| after: "reachable w \<Longrightarrow> step w ev = Some w' \<Longrightarrow> reachable w'"

section \<open>Phases and observations\<close>

text \<open>
  The three phases of the specification, read off the two flags of \<^verbatim>\<open>gameState\<close>: the
  round is running, the betting window is open, or neither (the crash display, and the
  time before the first round).
\<close>

datatype phase = BETTING_OPEN | ACTIVE | CRASHED

definition phase :: "gameState \<Rightarrow> phase" where
  "phase gs = (if isActive gs then ACTIVE else if isBettingOpen gs then BETTING_OPEN else CRASHED)"

text \<open>The payloads that were broadcast under a name, oldest first.\<close>

fun emitted :: "string \<Rightarrow> outMsg list \<Rightarrow> (string \<times> jsval) list list" where
  "emitted n [] = []"
| "emitted n (Emit m p # outs) = (if m = n then p # emitted n outs else emitted n outs)"
| "emitted n (SocketEmit k m p # outs) = emitted n outs"
| "emitted n (Respond k c p # outs) = emitted n outs"

text \<open>The answers to HTTP request \<open>rid\<close>, and what was sent to socket \<open>sock\<close> alone.\<close>

fun responded :: "nat \<Rightarrow> outMsg list \<Rightarrow> (nat \<times> (string \<times> jsval) list) list" where
  "responded rid [] = []"
| "responded rid (Respond k c p # outs) =
     (if k = rid then (c, p) # responded rid outs else responded rid outs)"
| "responded rid (Emit m p # outs) = responded rid outs"
| "responded rid (SocketEmit k m p # outs) = responded rid outs"

fun sentTo :: "nat \<Rightarrow> outMsg list \<Rightarrow> (string \<times> (string \<times> jsval) list) list" where
  "sentTo sock [] = []"
| "sentTo sock (SocketEmit k m p # outs) =
     (if k = sock then (m, p) # sentTo sock outs else sentTo sock outs)"
| "sentTo sock (Emit m p # outs) = sentTo sock outs"
| "sentTo sock (Respond k c p # outs) = sentTo sock outs"

text \<open>
  The bet and the cashout of a user in the two mappings, and the balance of a stored
  wallet.
\<close>

definition betOf :: "string \<Rightarrow> world \<Rightarrow> bet option" where
  "betOf u w = players (gameState w) u"

definition cashoutOf :: "string \<Rightarrow> world \<Rightarrow> cashoutEntry option" where
  "cashoutOf u w = cashedOut (gameState w) u"

definition balanceOf :: "string \<Rightarrow> crypto \<Rightarrow> world \<Rightarrow> jsnum option" where
  "balanceOf u c w =
     (case db w of None \<Rightarrow> None
      | Some st \<Rightarrow> (case wallets st u of None \<Rightarrow> None | Some wal \<Rightarrow> Some (balances wal c)))"

text \<open>
  The fields of a bet request are valid, and its user has no bet yet: the checks of the
  handler before the one on the phase.
\<close>

definition passesFieldChecks :: "world \<Rightarrow> betRequest \<Rightarrow> bool" where
  "passesFieldChecks w req \<longleftrightarrow>
     reqUsername req \<noteq> [] \<and> 1 \<le> reqUsdAmount req \<and> reqUsdAmount req \<le> 1000 \<and>
     cryptoOf (reqCryptoType req) \<noteq> None \<and> players (gameState w) (reqUsername req) = None"

text \<open>
  Two worlds that differ at most in what has been sent: the same game state, prices,
  database, timers and suspended handlers.
\<close>

definition sameButOutbox :: "world \<Rightarrow> world \<Rightarrow> bool" where
  "sameButOutbox w1 w2 \<longleftrightarrow>
     gameState w1 = gameState w2 \<and> cryptoPrices w1 = cryptoPrices w2 \<and> db w1 = db w2 \<and>
     timers w1 = timers w2 \<and> suspended w1 = suspended w2"

section \<open>A session\<close>

text \<open>
  Concrete inputs for the runs below. The digest is the SHA-256 digest of the seed; its
  first eight digits \<^verbatim>\<open>a8ae6e6e\<close> give the crash point \<open>85040352441 / 29299269460\<close>,
  about 2.9025.
\<close>

definition emptyStore :: store where
  "emptyStore = \<lparr>wallets = Map.empty, rounds = []\<rparr>"

definition aliceBet :: betRequest where
  "aliceBet = \<lparr>reqUsername = ''alice'', reqUsdAmount = 10, reqCryptoType = ''BTC''\<rparr>"

definition bobBet :: betRequest where
  "bobBet = \<lparr>reqUsername = ''bob'', reqUsdAmount = 35, reqCryptoType = ''ETH''\<rparr>"

definition ioOk :: "int \<Rightarrow> ioEnv" where
  "ioOk t = \<lparr>findOneR = DbOk, insertOneR = DbOk, updateOneR = DbOk, ioNow = t\<rparr>"

definition ioUpdateFails :: "int \<Rightarrow> ioEnv" where
  "ioUpdateFails t = \<lparr>findOneR = DbOk, insertOneR = DbOk, updateOneR = DbThrows, ioNow = t\<rparr>"

definition ioFindFails :: "int \<Rightarrow> ioEnv" where
  "ioFindFails t = \<lparr>findOneR = DbThrows, insertOneR = DbOk, updateOneR = DbOk, ioNow = t\<rparr>"

definition tickAt :: "int \<Rightarrow> tickEnv" where
  "tickAt t = \<lparr>tickNow = t, crashEnd = t, saveRound = DbOk\<rparr>"

definition roundAt :: "int \<Rightarrow> roundEnv" where
  "roundAt t =
     \<lparr>newSeed = ''0123456789abcdef0123456789abcdef0123456789abcdef0123456789abcdef'',
      seedDigest = ''a8ae6e6ee929abea3afcfc5258c8ccd6f85273e0d4626d26c7279f3250f77c8e'',
      idNow = t, startNow = t, firstTick = tickAt t\<rparr>"

text \<open>
  With a database: alice bets 10 dollars in BTC before the first round, the round starts
  at time 1700000000000, ticks after 100 ms and crashes at the tick after 19100 ms, when
  the multiplier is 2.91.
\<close>

definition betRun :: "event list" where
  "betRun =
     [BetRequest 1 aliceBet, Resume 0 (ioOk 1699999990000), Resume 0 (ioOk 1699999990100)]"

definition crashedRun :: "event list" where
  "crashedRun =
     betRun @
     [InitGame (roundAt 1700000000000),
      TimerUpdate (tickAt 1700000000100),
      TimerUpdate (tickAt 1700000019100)]"

text \<open>
  A round that starts at time 1700000000000 and ticks after 10000 ms (multiplier 2);
  then the price of BTC rises from 65000 to 70000.
\<close>

definition activeRun :: "event list" where
  "activeRun =
     [InitGame (roundAt 1700000000000),
      TimerUpdate (tickAt 1700000010000),
      PricesFetched 70000 3600]"

section \<open>Invariant of the round\<close>

text \<open>The part of \<^verbatim>\<open>gameState\<close> that only the round cycle writes.\<close>

definition roundCore :: "gameState \<Rightarrow> bool \<times> real \<times> jsnum option" where
  "roundCore gs = (isActive gs, multiplier gs, crashPoint gs)"

text \<open>
  A round that is not active and has a crash point has crashed: the stored multiplier
  has reached the crash point.
\<close>

definition crashedAbove :: "gameState \<Rightarrow> bool" where
  "crashedAbove gs \<longleftrightarrow> isActive gs \<or> crashPoint gs = None \<or> reachedCrashPoint gs"

section \<open>Evaluation\<close>

text \<open>The definitions that a concrete run unfolds.\<close>

lemmas session_defs =
  emptyStore_def aliceBet_def bobBet_def ioOk_def ioUpdateFails_def ioFindFails_def
  tickAt_def roundAt_def betRun_def crashedRun_def activeRun_def

lemmas handler_defs =
  initialWorld_def initialGameState_def fallbackPrices_def
  emit_def setTimeout_def suspend_def dropNth_def fire_def
  jsRoundId_def jsCrashPoint_def cryptoName_def cryptoOf_def errorBody_def jsAdd_def
  defaultBalances_def mockWallet_def findOne_def insertOne_def incBalance_def updateOne_def
  walletLookup_def getOrCreateWallet_def
  betValidation_def betAddToGame_def betAfterWallet_def debitWallet_def placeBet_def
  cashoutRecord_def creditWallet_def cashout_def
  bettingOpenCallback_def saveRoundDoc_def crashGame_def elapsed_def reachedCrashPoint_def
  updateMultiplier_def newRoundState_def startNewRound_def newRoundCallback_def
  pricesJson_def pricesFetched_def getPrices_def balanceWithUSD_def walletRequest_def
  onConnection_def validRoundEnv_def isHexDigest_def lowerHex_def
  generateCrashPoint_def rawCrashPoint_def randomValue_def substring08_def parseInt16_def
  hexDigit_def showInt_def showNat.simps digitChar_def Let_def

lemmas observer_defs = phase_def betOf_def cashoutOf_def balanceOf_def passesFieldChecks_def

lemma emitted_append: "emitted n (xs @ ys) = emitted n xs @ emitted n ys"
  by (induction n xs rule: emitted.induct) simp_all

lemma responded_append: "responded r (xs @ ys) = responded r xs @ responded r ys"
  by (induction r xs rule: responded.induct) simp_all

lemma run_reachable: "reachable w \<Longrightarrow> run w evs = Some w' \<Longrightarrow> reachable w'"
proof (induction evs arbitrary: w)
  case Nil
  then show ?case by simp
next
  case (Cons ev evs)
  from Cons.prems(2) obtain w1 where s: "step w ev = Some w1" and r: "run w1 evs = Some w'"
    by (auto split: option.splits)
  from Cons.prems(1) s have "reachable w1" by (rule reachable.after)
  then show ?case using r by (rule Cons.IH)
qed

section \<open>The random value and the crash point\<close>

lemma hexDigit_lt16: "hexDigit c = Some d \<Longrightarrow> d < 16"
  by (auto simp: hexDigit_def Let_def split: if_splits)

lemma lowerHex_digit:
  "lowerHex c \<Longrightarrow> \<exists>d. hexDigit c = Some d \<and> d < 16 \<and> (d = 15 \<longrightarrow> c = CHR ''f'')"
  by (auto simp: lowerHex_def hexDigit_def)

text \<open>A string of \<open>n\<close> characters parses to a number below \<open>16 ^ n\<close>.\<close>

lemma hexPrefix_bound: "hexPrefix acc cs < 16 ^ length cs * (acc + 1)"
proof (induction cs arbitrary: acc)
  case Nil
  show ?case by simp
next
  case (Cons c cs)
  show ?case
  proof (cases "hexDigit c")
    case None
    have "acc < 1 * (acc + 1)" by simp
    also have "\<dots> \<le> 16 ^ length (c # cs) * (acc + 1)"
      by (rule mult_le_mono1) simp
    finally show ?thesis using None by simp
  next
    case (Some d)
    then have d: "d < 16" by (rule hexDigit_lt16)
    have "hexPrefix (16 * acc + d) cs < 16 ^ length cs * (16 * acc + d + 1)"
      using Cons.IH [of "16 * acc + d"] by simp
    also have "\<dots> \<le> 16 ^ length cs * (16 * (acc + 1))"
      using d by (intro mult_le_mono2) simp
    finally show ?thesis using Some by (simp add: algebra_simps)
  qed
qed

lemma hexPrefix_take8: "hexPrefix 0 (take 8 h) \<le> 4294967295"
proof -
  have "hexPrefix 0 (take 8 h) < 16 ^ length (take 8 h) * (0 + 1)"
    by (rule hexPrefix_bound)
  also have "\<dots> \<le> 16 ^ 8 * (0 + 1)"
    by (intro mult_le_mono1 power_increasing) simp_all
  finally show ?thesis by simp
qed

lemma hexPrefix_acc:
  "list_all lowerHex cs \<Longrightarrow> hexPrefix acc cs = acc * 16 ^ length cs + hexPrefix 0 cs"
proof (induction cs arbitrary: acc)
  case Nil
  show ?case by simp
next
  case (Cons c cs)
  then obtain d where d: "hexDigit c = Some d"
    using lowerHex_digit [of c] by auto
  from Cons.prems have cs: "list_all lowerHex cs" by simp
  have "hexPrefix acc (c # cs) = hexPrefix (16 * acc + d) cs" using d by simp
  also have "\<dots> = (16 * acc + d) * 16 ^ length cs + hexPrefix 0 cs"
    by (rule Cons.IH [OF cs])
  also have "\<dots> = acc * 16 ^ length (c # cs) + (d * 16 ^ length cs + hexPrefix 0 cs)"
    by (simp add: algebra_simps)
  also have "d * 16 ^ length cs + hexPrefix 0 cs = hexPrefix d cs"
    by (rule Cons.IH [OF cs, symmetric])
  also have "hexPrefix d cs = hexPrefix 0 (c # cs)" using d by simp
  finally show ?case .
qed

text \<open>Only the digits \<^verbatim>\<open>ff...f\<close> parse to \<open>16 ^ n - 1\<close>.\<close>

lemma hexPrefix_all_f:
  "list_all lowerHex cs \<Longrightarrow> hexPrefix 0 cs + 1 = 16 ^ length cs \<Longrightarrow>
   cs = replicate (length cs) CHR ''f''"
proof (induction cs)
  case Nil
  show ?case by simp
next
  case (Cons c cs)
  then obtain d where d: "hexDigit c = Some d" "d < 16" "d = 15 \<longrightarrow> c = CHR ''f''"
    using lowerHex_digit [of c] by auto
  from Cons.prems have cs: "list_all lowerHex cs" by simp
  have lt: "hexPrefix 0 cs < 16 ^ length cs"
    using hexPrefix_bound [of 0 cs] by simp
  have "hexPrefix 0 (c # cs) = d * 16 ^ length cs + hexPrefix 0 cs"
    using d(1) hexPrefix_acc [OF cs, of d] by simp
  with Cons.prems(2) have eq: "d * 16 ^ length cs + hexPrefix 0 cs + 1 = 16 * 16 ^ length cs"
    by simp
  define p :: nat where "p = 16 ^ length cs"
  have p: "0 < p" by (simp add: p_def)
  have d15: "d = 15"
  proof (rule ccontr)
    assume "d \<noteq> 15"
    with d(2) have "d + 1 \<le> 15" by simp
    then have "(d + 1) * p \<le> 15 * p"
      by (rule mult_le_mono1)
    then have "d * p + p \<le> 15 * p" by (simp add: algebra_simps)
    moreover from lt have "hexPrefix 0 cs < p" by (simp add: p_def)
    moreover from eq have "d * p + hexPrefix 0 cs + 1 = 16 * p" by (simp add: p_def)
    ultimately show False using p by linarith
  qed
  with eq have "hexPrefix 0 cs + 1 = 16 ^ length cs" by simp
  with Cons.IH cs have "cs = replicate (length cs) CHR ''f''" by simp
  with d15 d(3) show ?case by simp
qed

lemma replicate_8: "replicate 8 x = [x, x, x, x, x, x, x, x]"
  by (simp add: eval_nat_numeral)

lemma digest_all_f:
  assumes "isHexDigest h" and "hexPrefix 0 (take 8 h) = 4294967295"
  shows "substring08 h = ''ffffffff''"
proof -
  from assms(1) have len: "length (take 8 h) = 8"
    by (simp add: isHexDigest_def)
  from assms(1) have "list_all lowerHex h"
    by (simp add: isHexDigest_def)
  then have all: "list_all lowerHex (take 8 h)"
    by (auto simp: list_all_iff dest: in_set_takeD)
  from assms(2) len have "hexPrefix 0 (take 8 h) + 1 = 16 ^ length (take 8 h)" by simp
  from hexPrefix_all_f [OF all this] len have "take 8 h = replicate 8 CHR ''f''" by simp
  then show ?thesis by (simp add: substring08_def replicate_8)
qed

lemma all_f_digest:
  assumes "substring08 h = ''ffffffff''"
  shows "hexPrefix 0 (take 8 h) = 4294967295"
proof -
  from assms have "take 8 h = ''ffffffff''" by (simp add: substring08_def)
  then show ?thesis by (simp add: hexDigit_def)
qed

lemma digest_hd:
  assumes "isHexDigest h"
  obtains c cs d where "take 8 h = c # cs" "hexDigit c = Some d"
proof -
  from assms obtain c t where h: "h = c # t"
    by (cases h) (auto simp: isHexDigest_def)
  with assms have "lowerHex c"
    by (simp add: isHexDigest_def)
  then obtain d where "hexDigit c = Some d"
    using lowerHex_digit [of c] by auto
  with h show ?thesis by (intro that [of c "take 7 t" d]) simp_all
qed

lemma randomValue_digest:
  assumes "isHexDigest h"
  shows "randomValue h = Fin (real (hexPrefix 0 (take 8 h)) / 4294967295)"
  using assms
  by (elim digest_hd) (simp add: randomValue_def parseInt16_def substring08_def)

lemma digest_ff:
  "isHexDigest ''ffffffff00000000000000000000000000000000000000000000000000000000''"
  by (simp add: isHexDigest_def lowerHex_def)

lemma digest_a8:
  "isHexDigest ''a8ae6e6ee929abea3afcfc5258c8ccd6f85273e0d4626d26c7279f3250f77c8e''"
  by (simp add: isHexDigest_def lowerHex_def)

text \<open>
  Claim C5. For every seed the crash point is a number between 1.01 and 100. The clamp
  to 100 comes after the floor of 1.01: a digest that starts with \<^verbatim>\<open>ffffffff\<close> makes
  the raw value infinite, and the crash point is then exactly 100.
\<close>

theorem crashPoint_bounds:
  assumes "isHexDigest hash"
  shows "(\<exists>c. fst (generateCrashPoint sd hash) = Fin c \<and> 1.01 \<le> c \<and> c \<le> 100) \<and>
         (substring08 hash = ''ffffffff'' \<longrightarrow>
            rawCrashPoint hash = PosInf \<and> fst (generateCrashPoint sd hash) = Fin 100)"
proof -
  let ?n = "hexPrefix 0 (take 8 hash)"
  have rv: "randomValue hash = Fin (real ?n / 4294967295)"
    using assms by (rule randomValue_digest)
  show ?thesis
  proof (cases "?n = 4294967295")
    case True
    then have "rawCrashPoint hash = PosInf"
      by (simp add: rawCrashPoint_def rv)
    then show ?thesis by (simp add: generateCrashPoint_def)
  next
    case False
    then have ne: "real ?n \<noteq> 4294967295"
      by (metis of_nat_numeral of_nat_eq_iff)
    have "substring08 hash \<noteq> ''ffffffff''"
      using False all_f_digest [of hash] by blast
    moreover have "rawCrashPoint hash =
        Fin (max 1.01 (1 / (1 - real ?n / 4294967295) * 0.99))"
      using ne by (simp add: rawCrashPoint_def rv)
    ultimately show ?thesis by (simp add: generateCrashPoint_def)
  qed
qed

theorem crashPoint_bounds_witness:
  "isHexDigest ''ffffffff00000000000000000000000000000000000000000000000000000000'' \<and>
   substring08 ''ffffffff00000000000000000000000000000000000000000000000000000000'' = ''ffffffff'' \<and>
   fst (generateCrashPoint ''0123456789abcdef0123456789abcdef0123456789abcdef0123456789abcdef''
          ''ffffffff00000000000000000000000000000000000000000000000000000000'') = Fin 100"
  using crashPoint_bounds [OF digest_ff,
      of "''0123456789abcdef0123456789abcdef0123456789abcdef0123456789abcdef''"] digest_ff
  by (simp add: substring08_def)

text \<open>
  Claim C8, as amended. For every seed the random value lies in the closed interval
  from 0 to 1, and it is 1 exactly when the digest starts with \<^verbatim>\<open>ffffffff\<close>: the
  divisor is \<^verbatim>\<open>0xffffffff\<close>, the largest value of the four bytes.
\<close>

theorem randomValue_closed_unit:
  assumes "isHexDigest hash"
  shows "\<exists>x. randomValue hash = Fin x \<and> 0 \<le> x \<and> x \<le> 1 \<and>
           (x = 1 \<longleftrightarrow> substring08 hash = ''ffffffff'')"
proof -
  let ?n = "hexPrefix 0 (take 8 hash)"
  have rv: "randomValue hash = Fin (real ?n / 4294967295)"
    using assms by (rule randomValue_digest)
  have le: "?n \<le> 4294967295" by (rule hexPrefix_take8)
  have "real ?n / 4294967295 = 1 \<longleftrightarrow> substring08 hash = ''ffffffff''"
  proof
    assume "real ?n / 4294967295 = 1"
    then have "?n = 4294967295" by simp
    with assms show "substring08 hash = ''ffffffff''" by (rule digest_all_f)
  next
    assume "substring08 hash = ''ffffffff''"
    then have "?n = 4294967295" by (rule all_f_digest)
    then show "real ?n / 4294967295 = 1" by simp
  qed
  moreover have "0 \<le> real ?n / 4294967295" by simp
  moreover have "real ?n / 4294967295 \<le> 1" using le by simp
  ultimately show ?thesis using rv by blast
qed

theorem randomValue_closed_unit_witness:
  "isHexDigest ''a8ae6e6ee929abea3afcfc5258c8ccd6f85273e0d4626d26c7279f3250f77c8e'' \<and>
   substring08 ''a8ae6e6ee929abea3afcfc5258c8ccd6f85273e0d4626d26c7279f3250f77c8e'' \<noteq> ''ffffffff'' \<and>
   (\<exists>x. randomValue ''a8ae6e6ee929abea3afcfc5258c8ccd6f85273e0d4626d26c7279f3250f77c8e'' = Fin x \<and> 0 \<le> x \<and> x < 1)"
  using randomValue_closed_unit [OF digest_a8] digest_a8
  by (auto simp: substring08_def)

text \<open>
  The claim as it was stated, with the half-open interval, fails at a digest that starts
  with \<^verbatim>\<open>ffffffff\<close>: \<^verbatim>\<open>parseInt("ffffffff", 16)\<close> is \<^verbatim>\<open>0xffffffff\<close>, and the
  random value is 1.
\<close>

theorem randomValue_below_1_counterexample:
  "isHexDigest ''ffffffff00000000000000000000000000000000000000000000000000000000'' \<and> randomValue ''ffffffff00000000000000000000000000000000000000000000000000000000'' = Fin 1"
  by (simp add: digest_ff randomValue_def substring08_def parseInt16_def hexDigit_def)

text \<open>
  Such a digest occurs: the seed below, 64 hexadecimal digits, has the SHA-256 digest
  \<^verbatim>\<open>ffffffffc12c1282...\<close>. With it the random value is 1, the raw crash point is
  infinite and the crash point is 100.
\<close>

lemma seed_with_digest_ff:
  "isHexDigest ''ffffffffc12c1282c36b4f6c71b10178e1d4db0afda1c63d59baca16f0d3b091'' \<and>
   randomValue ''ffffffffc12c1282c36b4f6c71b10178e1d4db0afda1c63d59baca16f0d3b091'' = Fin 1 \<and>
   generateCrashPoint ''010101010123456789abcdef0123456789abcdef0123456789abcdef5e0ec174''
     ''ffffffffc12c1282c36b4f6c71b10178e1d4db0afda1c63d59baca16f0d3b091'' =
     (Fin 100, ''010101010123456789abcdef0123456789abcdef0123456789abcdef5e0ec174'')"
  by (simp add: isHexDigest_def lowerHex_def generateCrashPoint_def rawCrashPoint_def
      randomValue_def substring08_def parseInt16_def hexDigit_def)

section \<open>The wallet of a player\<close>

text \<open>
  Claim C9. \<^verbatim>\<open>getOrCreateWallet\<close> always returns a wallet. Without a database, or
  when \<^verbatim>\<open>findOne\<close> throws, it is the wallet of that user with the balances BTC 0.01
  and ETH 1.0, and the database is as before; the error that the \<^verbatim>\<open>try\<close> block
  raises stays inside the function.
\<close>

theorem getOrCreateWallet_default:
  assumes "d = None \<or> findOneR io = DbThrows"
  shows "username (fst (getOrCreateWallet io d u)) = u \<and>
         balances (fst (getOrCreateWallet io d u)) BTC = Fin 0.01 \<and>
         balances (fst (getOrCreateWallet io d u)) ETH = Fin 1.0 \<and>
         snd (getOrCreateWallet io d u) = d \<and>
         (\<forall>st. d = Some st \<longrightarrow> walletLookup io st u = Inl ''findOne'')"
  using assms
  by (auto simp: getOrCreateWallet_def walletLookup_def findOne_def mockWallet_def
      defaultBalances_def split: option.splits)

theorem getOrCreateWallet_default_witness:
  "findOneR (ioFindFails 1700000000000) = DbThrows \<and>
   walletLookup (ioFindFails 1700000000000) emptyStore ''alice'' = Inl ''findOne'' \<and>
   fst (getOrCreateWallet (ioFindFails 1700000000000) (Some emptyStore) ''alice'') =
     \<lparr>username = ''alice'', balances = defaultBalances, createdAt = None\<rparr> \<and>
   balances (fst (getOrCreateWallet (ioOk 1700000000000) None ''alice'')) BTC = Fin 0.01"
  using getOrCreateWallet_default [of "Some emptyStore" "ioFindFails 1700000000000" "''alice''"]
    getOrCreateWallet_default [of None "ioOk 1700000000000" "''alice''"]
  by (simp add: ioFindFails_def getOrCreateWallet_def walletLookup_def findOne_def mockWallet_def)

section \<open>Bets and the phase of the round\<close>





lemma same_crashGame: "sameButOutbox (crashGame env (w\<lparr>outbox := out\<rparr>)) (crashGame env w)"
  by (simp add: sameButOutbox_def crashGame_def emit_def setTimeout_def Let_def)














text \<open>
  The phase is tested once, when the request arrives, and not again after the waits
  for the database. Here bob's request arrives in the betting window and waits for his
  wallet; the round starts; then the handler resumes, debits the wallet, stores the bet
  and answers with success while the round is active.
\<close>

lemma bet_resumed_in_active_round:
  "map_option (phase \<circ> gameState)
     (run (initialWorld (Some emptyStore)) (crashedRun @ [TimerBettingOpen]))
     = Some BETTING_OPEN \<and>
   map_option suspended
     (run (initialWorld (Some emptyStore))
        (crashedRun @ [TimerBettingOpen, BetRequest 2 bobBet]))
     = Some [BetAwaitWallet 2 bobBet ETH (Fin (1 / 100))] \<and>
   map_option (phase \<circ> gameState)
     (run (initialWorld (Some emptyStore))
        (crashedRun @ [TimerBettingOpen, BetRequest 2 bobBet,
                       TimerNewRound (roundAt 1700000034100)]))
     = Some ACTIVE \<and>
   map_option (phase \<circ> gameState)
     (run (initialWorld (Some emptyStore))
        (crashedRun @ [TimerBettingOpen, BetRequest 2 bobBet,
                       TimerNewRound (roundAt 1700000034100),
                       Resume 0 (ioOk 1700000034150), Resume 0 (ioOk 1700000034180)]))
     = Some ACTIVE \<and>
   map_option (betOf ''bob'')
     (run (initialWorld (Some emptyStore))
        (crashedRun @ [TimerBettingOpen, BetRequest 2 bobBet,
                       TimerNewRound (roundAt 1700000034100),
                       Resume 0 (ioOk 1700000034150), Resume 0 (ioOk 1700000034180)]))
     = Some (Some \<lparr>usdAmount = 35, cryptoAmount = Fin (1 / 100), cryptoType = ETH,
                    priceAtTime = 3500\<rparr>) \<and>
   map_option (balanceOf ''bob'' ETH)
     (run (initialWorld (Some emptyStore))
        (crashedRun @ [TimerBettingOpen, BetRequest 2 bobBet,
                       TimerNewRound (roundAt 1700000034100),
                       Resume 0 (ioOk 1700000034150), Resume 0 (ioOk 1700000034180)]))
     = Some (Some (Fin (99 / 100))) \<and>
   map_option (responded 2 \<circ> outbox)
     (run (initialWorld (Some emptyStore))
        (crashedRun @ [TimerBettingOpen, BetRequest 2 bobBet,
                       TimerNewRound (roundAt 1700000034100),
                       Resume 0 (ioOk 1700000034150), Resume 0 (ioOk 1700000034180)]))
     = Some [(200, [(''success'', JBool True),
                    (''data'', JObj
                       [(''roundId'', JStr ''round_1700000034100''),
                        (''usdAmount'', JNum (Fin 35)),
                        (''cryptoAmount'', JNum (Fin (1 / 100))),
                        (''cryptoType'', JStr ''ETH'')])])]"
  by (simp add: session_defs handler_defs observer_defs)

section \<open>Bets and a failing debit\<close>

text \<open>
  Claim C4, as amended. When \<^verbatim>\<open>updateOne\<close> throws at the debit, the handler logs
  the error and goes on as if there were no debit to make: the database keeps the
  balance, the bet enters \<^verbatim>\<open>players\<close> with the price of that moment, and the
  request is answered with status 200 and \<^verbatim>\<open>success: true\<close>.
\<close>

theorem debit_failure_absorbed:
  assumes "updateOneR io = DbThrows"
  shows "resume (BetAwaitDebit rid req c amount) io w = betAddToGame rid req c amount w \<and>
         db (resume (BetAwaitDebit rid req c amount) io w) = db w \<and>
         balanceOf (reqUsername req) c (resume (BetAwaitDebit rid req c amount) io w) =
           balanceOf (reqUsername req) c w \<and>
         betOf (reqUsername req) (resume (BetAwaitDebit rid req c amount) io w) =
           Some \<lparr>usdAmount = reqUsdAmount req, cryptoAmount = amount, cryptoType = c,
                 priceAtTime = cryptoPrices w c\<rparr> \<and>
         responded rid (outbox (resume (BetAwaitDebit rid req c amount) io w)) =
           responded rid (outbox w) @
             [(200, [(''success'', JBool True),
                     (''data'', JObj
                        [(''roundId'', jsRoundId (gameState w)),
                         (''usdAmount'', JNum (Fin (reqUsdAmount req))),
                         (''cryptoAmount'', JNum amount),
                         (''cryptoType'', JStr (cryptoName c))])])]"
proof -
  have "map_option (\<lambda>st. debitWallet (updateOneR io) st (reqUsername req) c amount) (db w) = db w"
    using assms by (cases "db w") (simp_all add: debitWallet_def updateOne_def)
  then have r: "resume (BetAwaitDebit rid req c amount) io w = betAddToGame rid req c amount w"
    by simp
  show ?thesis
    unfolding r
    by (simp add: betAddToGame_def emit_def betOf_def balanceOf_def responded_append Let_def)
qed

theorem debit_failure_absorbed_witness:
  "case run (initialWorld (Some emptyStore))
          [BetRequest 1 aliceBet, Resume 0 (ioOk 1699999990000)] of
     None \<Rightarrow> False
   | Some w \<Rightarrow>
       suspended w = [BetAwaitDebit 1 aliceBet BTC (Fin (1 / 6500))] \<and>
       balanceOf ''alice'' BTC w = Some (Fin 0.01) \<and> betOf ''alice'' w = None \<and>
       responded 1 (outbox w) = [] \<and>
       updateOneR (ioUpdateFails 1699999990100) = DbThrows \<and>
       step w (Resume 0 (ioUpdateFails 1699999990100)) =
         Some (resume (BetAwaitDebit 1 aliceBet BTC (Fin (1 / 6500)))
                 (ioUpdateFails 1699999990100) (w\<lparr>suspended := []\<rparr>)) \<and>
       balanceOf ''alice'' BTC
         (resume (BetAwaitDebit 1 aliceBet BTC (Fin (1 / 6500)))
            (ioUpdateFails 1699999990100) (w\<lparr>suspended := []\<rparr>)) = Some (Fin 0.01) \<and>
       betOf ''alice''
         (resume (BetAwaitDebit 1 aliceBet BTC (Fin (1 / 6500)))
            (ioUpdateFails 1699999990100) (w\<lparr>suspended := []\<rparr>)) =
         Some \<lparr>usdAmount = 10, cryptoAmount = Fin (1 / 6500), cryptoType = BTC,
               priceAtTime = 65000\<rparr> \<and>
       responded 1 (outbox
         (resume (BetAwaitDebit 1 aliceBet BTC (Fin (1 / 6500)))
            (ioUpdateFails 1699999990100) (w\<lparr>suspended := []\<rparr>))) =
         [(200, [(''success'', JBool True),
                 (''data'', JObj
                    [(''roundId'', JNull), (''usdAmount'', JNum (Fin 10)),
                     (''cryptoAmount'', JNum (Fin (1 / 6500))),
                     (''cryptoType'', JStr ''BTC'')])])] \<and>
       balanceOf ''alice'' BTC
         (resume (BetAwaitDebit 1 aliceBet BTC (Fin (1 / 6500)))
            (ioOk 1699999990100) (w\<lparr>suspended := []\<rparr>)) = Some (Fin (16 / 1625))"
proof -
  let ?k = "BetAwaitDebit 1 aliceBet BTC (Fin (1 / 6500))"
  have "\<exists>w. run (initialWorld (Some emptyStore))
               [BetRequest 1 aliceBet, Resume 0 (ioOk 1699999990000)] = Some w \<and>
          suspended w = [?k] \<and> balanceOf ''alice'' BTC w = Some (Fin 0.01) \<and>
          betOf ''alice'' w = None \<and> responded 1 (outbox w) = [] \<and>
          gameState w = initialGameState \<and> cryptoPrices w BTC = 65000 \<and>
          balanceOf ''alice'' BTC (resume ?k (ioOk 1699999990100) (w\<lparr>suspended := []\<rparr>))
            = Some (Fin (16 / 1625))"
    by (simp add: session_defs handler_defs observer_defs)
  then obtain w where
    r: "run (initialWorld (Some emptyStore))
          [BetRequest 1 aliceBet, Resume 0 (ioOk 1699999990000)] = Some w"
    and s: "suspended w = [?k]" and bal: "balanceOf ''alice'' BTC w = Some (Fin 0.01)"
    and b: "betOf ''alice'' w = None" and o: "responded 1 (outbox w) = []"
    and g: "gameState w = initialGameState" and q: "cryptoPrices w BTC = 65000"
    and ok: "balanceOf ''alice'' BTC (resume ?k (ioOk 1699999990100) (w\<lparr>suspended := []\<rparr>))
            = Some (Fin (16 / 1625))"
    by blast
  have t: "updateOneR (ioUpdateFails 1699999990100) = DbThrows"
    by (simp add: ioUpdateFails_def)
  have st: "step w (Resume 0 (ioUpdateFails 1699999990100)) =
      Some (resume ?k (ioUpdateFails 1699999990100) (w\<lparr>suspended := []\<rparr>))"
    using s by (simp add: dropNth_def)
  have u: "reqUsername aliceBet = ''alice''" "reqUsdAmount aliceBet = 10"
    by (simp_all add: aliceBet_def)
  have w0: "balanceOf ''alice'' BTC (w\<lparr>suspended := []\<rparr>) = Some (Fin 0.01)"
    "responded 1 (outbox (w\<lparr>suspended := []\<rparr>)) = []"
    "jsRoundId (gameState (w\<lparr>suspended := []\<rparr>)) = JNull"
    "cryptoPrices (w\<lparr>suspended := []\<rparr>) BTC = 65000"
    "cryptoName BTC = ''BTC''"
    using bal o g q
    by (simp_all add: balanceOf_def jsRoundId_def initialGameState_def cryptoName_def)
  from debit_failure_absorbed [OF t, of 1 aliceBet BTC "Fin (1 / 6500)" "w\<lparr>suspended := []\<rparr>"]
  have "balanceOf ''alice'' BTC (resume ?k (ioUpdateFails 1699999990100) (w\<lparr>suspended := []\<rparr>))
          = Some (Fin 0.01)"
    and "betOf ''alice'' (resume ?k (ioUpdateFails 1699999990100) (w\<lparr>suspended := []\<rparr>)) =
          Some \<lparr>usdAmount = 10, cryptoAmount = Fin (1 / 6500), cryptoType = BTC,
                priceAtTime = 65000\<rparr>"
    and "responded 1 (outbox (resume ?k (ioUpdateFails 1699999990100) (w\<lparr>suspended := []\<rparr>))) =
          [] @
          [(200, [(''success'', JBool True),
                  (''data'', JObj
                     [(''roundId'', JNull), (''usdAmount'', JNum (Fin 10)),
                      (''cryptoAmount'', JNum (Fin (1 / 6500))),
                      (''cryptoType'', JStr ''BTC'')])])]"
    unfolding u w0 by blast+
  with r s bal b o t st ok show ?thesis by (simp del: resume.simps)
qed

text \<open>
  The claim as it was stated asks that such a bet is not recorded and that the caller
  is told of a failure. In this run the debit of alice's bet throws: her balance is
  still 0.01 BTC, her bet is in \<^verbatim>\<open>players\<close>, and the answer is a success.
\<close>

theorem phantom_bet_counterexample:
  "map_option (balanceOf ''alice'' BTC)
     (run (initialWorld (Some emptyStore))
        [BetRequest 1 aliceBet, Resume 0 (ioOk 1699999990000)])
     = Some (Some (Fin 0.01)) \<and>
   map_option (balanceOf ''alice'' BTC)
     (run (initialWorld (Some emptyStore))
        [BetRequest 1 aliceBet, Resume 0 (ioOk 1699999990000),
         Resume 0 (ioUpdateFails 1699999990100)])
     = Some (Some (Fin 0.01)) \<and>
   map_option (betOf ''alice'')
     (run (initialWorld (Some emptyStore))
        [BetRequest 1 aliceBet, Resume 0 (ioOk 1699999990000),
         Resume 0 (ioUpdateFails 1699999990100)])
     = Some (Some \<lparr>usdAmount = 10, cryptoAmount = Fin (1 / 6500), cryptoType = BTC,
                    priceAtTime = 65000\<rparr>) \<and>
   map_option (responded 1 \<circ> outbox)
     (run (initialWorld (Some emptyStore))
        [BetRequest 1 aliceBet, Resume 0 (ioOk 1699999990000),
         Resume 0 (ioUpdateFails 1699999990100)])
     = Some [(200, [(''success'', JBool True),
                    (''data'', JObj
                       [(''roundId'', JNull), (''usdAmount'', JNum (Fin 10)),
                        (''cryptoAmount'', JNum (Fin (1 / 6500))),
                        (''cryptoType'', JStr ''BTC'')])])]"
  by (simp add: session_defs handler_defs observer_defs)

section \<open>The payout of a cashout\<close>

lemma cashoutRecord_entry:
  "cashoutOf u (cashoutRecord sock u b p usd w) =
     Some \<lparr>atMultiplier = multiplier (gameState w), payout = p, usdPayout = usd\<rparr>"
  by (simp add: cashoutRecord_def cashoutOf_def emit_def Let_def)

text \<open>
  Claim C6. A cashout of a user with bet \<open>b\<close> and no cashout yet computes
  \<^verbatim>\<open>payout = b.cryptoAmount * gameState.multiplier\<close> and
  \<^verbatim>\<open>usdPayout = payout * cryptoPrices[b.cryptoType]\<close> from the multiplier and the
  price table of the moment the handler runs, not from \<^verbatim>\<open>b.priceAtTime\<close>. Without a
  database the entry is recorded at once; with one the handler waits for the credit
  with these two values, and whenever it resumes it records them unchanged. For a
  finite amount the two values are the products of real numbers.
\<close>

theorem cashout_payout_law:
  assumes "players (gameState w) u = Some b" and "cashedOut (gameState w) u = None"
  shows "(let p = jsMul (cryptoAmount b) (Fin (multiplier (gameState w)));
              usd = jsMul p (Fin (cryptoPrices w (cryptoType b)))
          in (db w = None \<longrightarrow>
                cashoutOf u (cashout sock u w) =
                  Some \<lparr>atMultiplier = multiplier (gameState w), payout = p, usdPayout = usd\<rparr>) \<and>
             (db w \<noteq> None \<longrightarrow>
                cashout sock u w = suspend (CashoutAwaitCredit sock u b p usd) w) \<and>
             cashoutOf u (resume (CashoutAwaitCredit sock u b p usd) io w') =
               Some \<lparr>atMultiplier = multiplier (gameState w'), payout = p, usdPayout = usd\<rparr> \<and>
             (\<forall>a. cryptoAmount b = Fin a \<longrightarrow>
                p = Fin (a * multiplier (gameState w)) \<and>
                usd = Fin (a * multiplier (gameState w) * cryptoPrices w (cryptoType b))))"
  using assms
  by (auto simp: cashout_def cashoutRecord_entry Let_def)

theorem cashout_payout_law_witness:
  "(case run (initialWorld None) (BetRequest 1 aliceBet # activeRun) of
      None \<Rightarrow> False
    | Some w \<Rightarrow>
        betOf ''alice'' w =
          Some \<lparr>usdAmount = 10, cryptoAmount = Fin (1 / 6500), cryptoType = BTC,
                priceAtTime = 65000\<rparr> \<and>
        cashoutOf ''alice'' w = None \<and> db w = None \<and>
        multiplier (gameState w) = 2 \<and> cryptoPrices w BTC = 70000 \<and>
        cashoutOf ''alice'' (cashout 7 ''alice'' w) =
          Some \<lparr>atMultiplier = 2, payout = Fin (1 / 3250), usdPayout = Fin (280 / 13)\<rparr>) \<and>
   (case run (initialWorld (Some emptyStore)) (betRun @ activeRun) of
      None \<Rightarrow> False
    | Some w \<Rightarrow>
        betOf ''alice'' w =
          Some \<lparr>usdAmount = 10, cryptoAmount = Fin (1 / 6500), cryptoType = BTC,
                priceAtTime = 65000\<rparr> \<and>
        cashoutOf ''alice'' w = None \<and> db w \<noteq> None \<and>
        suspended (cashout 7 ''alice'' w) =
          [CashoutAwaitCredit 7 ''alice''
             \<lparr>usdAmount = 10, cryptoAmount = Fin (1 / 6500), cryptoType = BTC,
               priceAtTime = 65000\<rparr>
             (Fin (1 / 3250)) (Fin (280 / 13))])"
proof -
  let ?b = "\<lparr>usdAmount = 10, cryptoAmount = Fin (1 / 6500), cryptoType = BTC,
              priceAtTime = 65000\<rparr>"
  have "\<exists>w. run (initialWorld None) (BetRequest 1 aliceBet # activeRun) = Some w \<and>
          players (gameState w) ''alice'' = Some ?b \<and> cashedOut (gameState w) ''alice'' = None \<and>
          db w = None \<and> multiplier (gameState w) = 2 \<and> cryptoPrices w BTC = 70000"
    by (simp add: session_defs handler_defs)
  then obtain w1 where r1: "run (initialWorld None) (BetRequest 1 aliceBet # activeRun) = Some w1"
    and p1: "players (gameState w1) ''alice'' = Some ?b"
    and c1: "cashedOut (gameState w1) ''alice'' = None"
    and d1: "db w1 = None" and m1: "multiplier (gameState w1) = 2"
    and q1: "cryptoPrices w1 BTC = 70000"
    by blast
  have "\<exists>w. run (initialWorld (Some emptyStore)) (betRun @ activeRun) = Some w \<and>
          players (gameState w) ''alice'' = Some ?b \<and> cashedOut (gameState w) ''alice'' = None \<and>
          db w \<noteq> None \<and> multiplier (gameState w) = 2 \<and> cryptoPrices w BTC = 70000 \<and>
          suspended w = []"
    by (simp add: session_defs handler_defs)
  then obtain w2 where r2: "run (initialWorld (Some emptyStore)) (betRun @ activeRun) = Some w2"
    and p2: "players (gameState w2) ''alice'' = Some ?b"
    and c2: "cashedOut (gameState w2) ''alice'' = None"
    and d2: "db w2 \<noteq> None" and m2: "multiplier (gameState w2) = 2"
    and q2: "cryptoPrices w2 BTC = 70000" and s2: "suspended w2 = []"
    by blast
  from cashout_payout_law [OF p1 c1, of 7] d1 m1 q1
  have e1: "cashoutOf ''alice'' (cashout 7 ''alice'' w1) =
      Some \<lparr>atMultiplier = 2, payout = Fin (1 / 3250), usdPayout = Fin (280 / 13)\<rparr>"
    by (simp add: Let_def)
  from cashout_payout_law [OF p2 c2, of 7] d2 m2 q2
  have e2: "cashout 7 ''alice'' w2 =
      suspend (CashoutAwaitCredit 7 ''alice'' ?b (Fin (1 / 3250)) (Fin (280 / 13))) w2"
    by (simp add: Let_def)
  show ?thesis
    using r1 p1 c1 d1 m1 q1 e1 r2 p2 c2 d2 e2 s2
    by (simp add: betOf_def cashoutOf_def suspend_def)
qed

section \<open>Cashing out after the crash\<close>

text \<open>
  Claim C1. The claim asks that a cashout after the crash fails and neither credits the
  wallet nor enters \<^verbatim>\<open>cashedOut\<close>. The handler never reads \<^verbatim>\<open>isActive\<close>. In the
  session above the round has crashed at 2.91 and alice, who has not cashed out, holds
  0.01 - 1/6500 BTC; her cashout during the crash display is recorded at the multiplier
  2.91, her wallet is credited with the payout, and she is sent
  \<^verbatim>\<open>cashoutSuccess\<close>.
\<close>

theorem cashout_in_crash_window:
  "map_option (phase \<circ> gameState) (run (initialWorld (Some emptyStore)) crashedRun) = Some CRASHED \<and>
   map_option (balanceOf ''alice'' BTC) (run (initialWorld (Some emptyStore)) crashedRun)
     = Some (Some (Fin (16 / 1625))) \<and>
   map_option (cashoutOf ''alice'')
     (run (initialWorld (Some emptyStore))
        (crashedRun @ [CashoutRequest 7 ''alice'', Resume 0 (ioOk 1700000020000)]))
     = Some (Some \<lparr>atMultiplier = 2.91, payout = Fin (291 / 650000), usdPayout = Fin 29.1\<rparr>) \<and>
   map_option (balanceOf ''alice'' BTC)
     (run (initialWorld (Some emptyStore))
        (crashedRun @ [CashoutRequest 7 ''alice'', Resume 0 (ioOk 1700000020000)]))
     = Some (Some (Fin (16 / 1625 + 291 / 650000))) \<and>
   map_option (sentTo 7 \<circ> outbox)
     (run (initialWorld (Some emptyStore))
        (crashedRun @ [CashoutRequest 7 ''alice'', Resume 0 (ioOk 1700000020000)]))
     = Some [(''cashoutSuccess'',
              [(''multiplier'', JNum (Fin 2.91)), (''payout'', JNum (Fin (291 / 650000))),
               (''usdPayout'', JNum (Fin 29.1)), (''cryptoType'', JStr ''BTC'')])]"
  by (simp add: session_defs handler_defs observer_defs)

section \<open>What the round events carry\<close>

text \<open>
  Claim C3. The claim asks for the hash of the seed in \<^verbatim>\<open>roundStart\<close> and for the
  seed in \<^verbatim>\<open>roundCrash\<close>. Every call of \<^verbatim>\<open>startNewRound\<close> broadcasts exactly one
  \<^verbatim>\<open>roundStart\<close>, with the fields \<^verbatim>\<open>roundId\<close> and \<^verbatim>\<open>multiplier\<close> and no
  other; every call of \<^verbatim>\<open>crashGame\<close> broadcasts exactly one \<^verbatim>\<open>roundCrash\<close>, with
  the fields \<^verbatim>\<open>roundId\<close> and \<^verbatim>\<open>crashPoint\<close> and no other. The digest is a
  local variable of \<^verbatim>\<open>generateCrashPoint\<close>; the seed goes to the \<^verbatim>\<open>rounds\<close>
  collection only.
\<close>

theorem round_events_without_seed:
  "emitted ''roundStart'' (outbox (startNewRound env w)) =
     emitted ''roundStart'' (outbox w) @
       [[(''roundId'', JStr (''round_'' @ showInt (idNow env))), (''multiplier'', JNum (Fin 1))]] \<and>
   emitted ''roundCrash'' (outbox (crashGame tenv w')) =
     emitted ''roundCrash'' (outbox w') @
       [[(''roundId'', jsRoundId (gameState w')), (''crashPoint'', jsCrashPoint (gameState w'))]]"
  by (simp add: startNewRound_def updateMultiplier_def crashGame_def newRoundState_def
      generateCrashPoint_def emit_def setTimeout_def jsRoundId_def jsCrashPoint_def
      emitted_append Let_def)

section \<open>The multiplier after the crash\<close>

lemma gameState_emit: "gameState (emit out w) = gameState w"
  by (simp add: emit_def)

lemma gameState_suspend: "gameState (suspend k w) = gameState w"
  by (simp add: suspend_def)

lemma gameState_setTimeout: "gameState (setTimeout t ms w) = gameState w"
  by (simp add: setTimeout_def)

lemmas gameState_frame = gameState_emit gameState_suspend gameState_setTimeout

lemma roundCore_betAddToGame:
  "roundCore (gameState (betAddToGame rid req c amount w)) = roundCore (gameState w)"
  by (simp add: betAddToGame_def roundCore_def gameState_frame Let_def)

lemma roundCore_betAfterWallet:
  "roundCore (gameState (betAfterWallet rid req c amount wal w)) = roundCore (gameState w)"
  by (simp add: betAfterWallet_def gameState_frame roundCore_betAddToGame split: option.splits)

lemma roundCore_placeBet:
  "roundCore (gameState (placeBet rid req w)) = roundCore (gameState w)"
  by (simp add: placeBet_def gameState_frame roundCore_betAfterWallet
      split: sum.splits prod.splits option.splits)

lemma roundCore_cashoutRecord:
  "roundCore (gameState (cashoutRecord sock u b p usd w)) = roundCore (gameState w)"
  by (simp add: cashoutRecord_def roundCore_def gameState_frame Let_def)

lemma roundCore_cashout:
  "roundCore (gameState (cashout sock u w)) = roundCore (gameState w)"
  by (simp add: cashout_def gameState_frame roundCore_cashoutRecord Let_def
      split: option.splits)

lemma roundCore_resume:
  "roundCore (gameState (resume k io w)) = roundCore (gameState w)"
proof (cases k)
  case (BetAwaitWallet rid req c amount)
  then show ?thesis
    by (simp add: roundCore_betAfterWallet split: prod.splits)
next
  case (BetAwaitDebit rid req c amount)
  then show ?thesis by (simp add: roundCore_betAddToGame)
next
  case (CashoutAwaitCredit sock u b p usd)
  then show ?thesis by (simp add: roundCore_cashoutRecord)
qed

lemma roundCore_bettingOpenCallback:
  "roundCore (gameState (bettingOpenCallback w)) = roundCore (gameState w)"
  by (simp add: bettingOpenCallback_def roundCore_def gameState_frame emit_def Let_def)

lemma gameState_pricesFetched: "gameState (pricesFetched btc eth w) = gameState w"
  by (simp add: pricesFetched_def gameState_frame Let_def)

lemma gameState_getPrices: "gameState (getPrices rid w) = gameState w"
  by (simp add: getPrices_def gameState_frame)

lemma gameState_walletRequest: "gameState (walletRequest rid u io w) = gameState w"
  by (simp add: walletRequest_def gameState_frame split: prod.splits)

lemma gameState_onConnection: "gameState (onConnection sock w) = gameState w"
  by (simp add: onConnection_def gameState_frame Let_def)

lemmas gameState_requests =
  gameState_pricesFetched gameState_getPrices gameState_walletRequest gameState_onConnection

lemma gameState_fire: "fire t w = Some w1 \<Longrightarrow> gameState w1 = gameState w"
  by (auto simp: fire_def split: if_splits)

lemma crashedAbove_core:
  "roundCore gs' = roundCore gs \<Longrightarrow> crashedAbove gs' = crashedAbove gs"
  by (simp add: roundCore_def crashedAbove_def reachedCrashPoint_def)

text \<open>The crash changes \<open>isActive\<close> and nothing else of the game state.\<close>

lemma gameState_crashGame:
  "gameState (crashGame env w) = (gameState w)\<lparr>isActive := False\<rparr>"
  by (simp add: crashGame_def gameState_frame Let_def)

lemma updateMultiplier_inactive:
  "\<not> isActive (gameState w) \<Longrightarrow> updateMultiplier env w = w"
  by (simp add: updateMultiplier_def)

lemma crashedAbove_updateMultiplier:
  "crashedAbove (gameState w) \<Longrightarrow> crashedAbove (gameState (updateMultiplier env w))"
  by (auto simp: updateMultiplier_def gameState_crashGame gameState_frame crashedAbove_def
      reachedCrashPoint_def Let_def)

lemma crashedAbove_startNewRound: "crashedAbove (gameState (startNewRound env w))"
proof -
  have "isActive (newRoundState env gs)" for gs
    by (simp add: newRoundState_def split: prod.splits)
  then show ?thesis
    unfolding startNewRound_def Let_def
    by (intro crashedAbove_updateMultiplier) (simp add: gameState_frame crashedAbove_def)
qed

lemma crashedAbove_step:
  assumes "crashedAbove (gameState w)" and "step w ev = Some w'"
  shows "crashedAbove (gameState w')"
proof (cases ev)
  case (InitGame env)
  with assms(2) show ?thesis
    by (auto simp: crashedAbove_startNewRound split: if_splits)
next
  case (TimerUpdate env)
  with assms(2) obtain w1 where f: "fire (UpdateMultiplier, 100) w = Some w1"
    and w': "w' = updateMultiplier env w1"
    by auto
  from f assms(1) have "crashedAbove (gameState w1)" by (simp add: gameState_fire)
  then show ?thesis unfolding w' by (rule crashedAbove_updateMultiplier)
next
  case TimerBettingOpen
  with assms(2) obtain w1 where f: "fire (BettingOpen, 5000) w = Some w1"
    and w': "w' = bettingOpenCallback w1"
    by auto
  from f assms(1) show ?thesis
    unfolding w'
    by (simp add: gameState_fire crashedAbove_core [OF roundCore_bettingOpenCallback])
next
  case (TimerNewRound env)
  with assms(2) show ?thesis
    by (auto simp: newRoundCallback_def crashedAbove_startNewRound split: if_splits)
next
  case (PricesFetched btc eth)
  with assms show ?thesis by (auto simp: gameState_requests)
next
  case (BetRequest rid req)
  with assms show ?thesis by (auto simp: crashedAbove_core [OF roundCore_placeBet])
next
  case (CashoutRequest sock u)
  with assms show ?thesis by (auto simp: crashedAbove_core [OF roundCore_cashout])
next
  case (Resume k io)
  with assms(2) have "w' = resume (suspended w ! k) io (w\<lparr>suspended := dropNth k (suspended w)\<rparr>)"
    by (auto split: if_splits)
  with assms(1) show ?thesis
    by (simp add: crashedAbove_core [OF roundCore_resume])
next
  case (Connect sock)
  with assms show ?thesis by (auto simp: gameState_requests)
next
  case (PricesRequest rid)
  with assms show ?thesis by (auto simp: gameState_requests)
next
  case (WalletRequest rid u io)
  with assms show ?thesis by (auto simp: gameState_requests)
qed

lemma crashedAbove_reachable: "reachable w \<Longrightarrow> crashedAbove (gameState w)"
proof (induction rule: reachable.induct)
  case (initial d)
  show ?case by (simp add: initialWorld_def initialGameState_def crashedAbove_def)
next
  case (after w ev w')
  from after.IH after.hyps(2) show ?case by (rule crashedAbove_step)
qed

text \<open>While the round is not active, only the start of a round changes the core.\<close>

lemma roundCore_step_inactive:
  assumes "\<not> isActive (gameState w)" and "step w ev = Some w'"
    and "\<forall>env. ev \<noteq> InitGame env \<and> ev \<noteq> TimerNewRound env"
  shows "roundCore (gameState w') = roundCore (gameState w)"
proof (cases ev)
  case (InitGame env)
  with assms(3) show ?thesis by simp
next
  case (TimerUpdate env)
  with assms(2) obtain w1 where f: "fire (UpdateMultiplier, 100) w = Some w1"
    and w': "w' = updateMultiplier env w1"
    by auto
  from f assms(1) have "\<not> isActive (gameState w1)" by (simp add: gameState_fire)
  then have "w' = w1" unfolding w' by (rule updateMultiplier_inactive)
  with f show ?thesis by (simp add: gameState_fire)
next
  case TimerBettingOpen
  with assms(2) obtain w1 where f: "fire (BettingOpen, 5000) w = Some w1"
    and w': "w' = bettingOpenCallback w1"
    by auto
  from f show ?thesis
    unfolding w' by (simp add: gameState_fire roundCore_bettingOpenCallback)
next
  case (TimerNewRound env)
  with assms(3) show ?thesis by simp
next
  case (PricesFetched btc eth)
  with assms(2) show ?thesis by (auto simp: gameState_requests)
next
  case (BetRequest rid req)
  with assms(2) show ?thesis by (auto simp: roundCore_placeBet)
next
  case (CashoutRequest sock u)
  with assms(2) show ?thesis by (auto simp: roundCore_cashout)
next
  case (Resume k io)
  with assms(2) have "w' = resume (suspended w ! k) io (w\<lparr>suspended := dropNth k (suspended w)\<rparr>)"
    by (auto split: if_splits)
  then show ?thesis by (simp add: roundCore_resume)
next
  case (Connect sock)
  with assms(2) show ?thesis by (auto simp: gameState_requests)
next
  case (PricesRequest rid)
  with assms(2) show ?thesis by (auto simp: gameState_requests)
next
  case (WalletRequest rid u io)
  with assms(2) show ?thesis by (auto simp: gameState_requests)
qed

text \<open>
  Claim C10. \<^verbatim>\<open>crashGame\<close> changes \<^verbatim>\<open>isActive\<close> and no other field of
  \<^verbatim>\<open>gameState\<close>. In every reachable world in which the round is not active and has
  a crash point, the stored multiplier is at least the crash point. While the round is
  not active, every event other than the start of a round leaves the multiplier as it
  is and the round inactive. The object that \<^verbatim>\<open>startNewRound\<close> assigns has the
  multiplier 1.
\<close>

theorem crash_changes_only_isActive:
  "gameState (crashGame tenv w0) = (gameState w0)\<lparr>isActive := False\<rparr> \<and>
   (reachable w \<longrightarrow> \<not> isActive (gameState w) \<longrightarrow> crashPoint (gameState w) = Some cp \<longrightarrow>
      jsGe (Fin (multiplier (gameState w))) cp) \<and>
   (\<not> isActive (gameState w) \<longrightarrow> step w ev = Some w' \<longrightarrow>
      (\<forall>env. ev \<noteq> InitGame env \<and> ev \<noteq> TimerNewRound env) \<longrightarrow>
      multiplier (gameState w') = multiplier (gameState w) \<and> \<not> isActive (gameState w')) \<and>
   multiplier (newRoundState renv gs) = 1"
proof (intro conjI impI)
  show "gameState (crashGame tenv w0) = (gameState w0)\<lparr>isActive := False\<rparr>"
    by (rule gameState_crashGame)
next
  assume "reachable w" and "\<not> isActive (gameState w)" and "crashPoint (gameState w) = Some cp"
  with crashedAbove_reachable [of w]
  show "jsGe (Fin (multiplier (gameState w))) cp"
    by (simp add: crashedAbove_def reachedCrashPoint_def)
next
  assume a: "\<not> isActive (gameState w)" "step w ev = Some w'"
    "\<forall>env. ev \<noteq> InitGame env \<and> ev \<noteq> TimerNewRound env"
  then have "roundCore (gameState w') = roundCore (gameState w)"
    by (rule roundCore_step_inactive)
  with a(1) show "multiplier (gameState w') = multiplier (gameState w)"
    and "\<not> isActive (gameState w')"
    by (simp_all add: roundCore_def)
next
  show "multiplier (newRoundState renv gs) = 1"
    by (simp add: newRoundState_def split: prod.splits)
qed

theorem crash_changes_only_isActive_witness:
  "case run (initialWorld (Some emptyStore)) crashedRun of
     None \<Rightarrow> False
   | Some w \<Rightarrow>
       reachable w \<and> \<not> isActive (gameState w) \<and>
       crashPoint (gameState w) = Some (Fin (85040352441 / 29299269460)) \<and>
       multiplier (gameState w) = 2.91 \<and>
       jsGe (Fin (multiplier (gameState w))) (Fin (85040352441 / 29299269460)) \<and>
       (case step w (PricesFetched 70000 3600) of
          None \<Rightarrow> False
        | Some w' \<Rightarrow> multiplier (gameState w') = 2.91 \<and> \<not> isActive (gameState w'))"
proof -
  have "\<exists>w. run (initialWorld (Some emptyStore)) crashedRun = Some w \<and>
          \<not> isActive (gameState w) \<and>
          crashPoint (gameState w) = Some (Fin (85040352441 / 29299269460)) \<and>
          multiplier (gameState w) = 2.91"
    by (simp add: session_defs handler_defs)
  then obtain w where r: "run (initialWorld (Some emptyStore)) crashedRun = Some w"
    and a: "\<not> isActive (gameState w)"
    and c: "crashPoint (gameState w) = Some (Fin (85040352441 / 29299269460))"
    and m: "multiplier (gameState w) = 2.91"
    by blast
  have reach: "reachable w"
    using reachable.initial r by (rule run_reachable)
  have s: "step w (PricesFetched 70000 3600) = Some (pricesFetched 70000 3600 w)"
    by simp
  from crash_changes_only_isActive
    [of _ _ w "Fin (85040352441 / 29299269460)" "PricesFetched 70000 3600"
       "pricesFetched 70000 3600 w"]
    reach a c s
  have "jsGe (Fin (multiplier (gameState w))) (Fin (85040352441 / 29299269460))"
    and "multiplier (gameState (pricesFetched 70000 3600 w)) = multiplier (gameState w)"
    and "\<not> isActive (gameState (pricesFetched 70000 3600 w))"
    by simp_all
  with r reach a c m show ?thesis by simp
qed

section \<open>A cashout that waits across the reset\<close>

text \<open>What the round cycle leaves alone: the two mappings and the suspended handlers.\<close>

lemma books_crashGame:
  "players (gameState (crashGame env w)) = players (gameState w) \<and>
   cashedOut (gameState (crashGame env w)) = cashedOut (gameState w) \<and>
   suspended (crashGame env w) = suspended w \<and>
   (db (crashGame env w) = None) = (db w = None)"
  by (simp add: crashGame_def emit_def setTimeout_def Let_def)

lemma books_updateMultiplier:
  "players (gameState (updateMultiplier env w)) = players (gameState w) \<and>
   cashedOut (gameState (updateMultiplier env w)) = cashedOut (gameState w) \<and>
   suspended (updateMultiplier env w) = suspended w \<and>
   (db (updateMultiplier env w) = None) = (db w = None)"
  by (simp add: updateMultiplier_def books_crashGame emit_def setTimeout_def Let_def)

lemma books_startNewRound:
  "players (gameState (startNewRound env w)) = players (gameState w) \<and>
   cashedOut (gameState (startNewRound env w)) = cashedOut (gameState w) \<and>
   suspended (startNewRound env w) = suspended w \<and>
   (db (startNewRound env w) = None) = (db w = None)"
  by (simp add: startNewRound_def books_updateMultiplier newRoundState_def emit_def Let_def
      split: prod.splits)

lemma books_fire:
  "fire t w = Some w1 \<Longrightarrow>
   gameState w1 = gameState w \<and> suspended w1 = suspended w \<and> db w1 = db w"
  by (auto simp: fire_def split: if_splits)

text \<open>
  Without a database no handler waits, and every user in \<^verbatim>\<open>cashedOut\<close> is in
  \<^verbatim>\<open>players\<close>.
\<close>

lemma atomic_step:
  assumes "db w = None" and "suspended w = []"
    and "dom (cashedOut (gameState w)) \<subseteq> dom (players (gameState w))"
    and "step w ev = Some w'"
  shows "db w' = None \<and> suspended w' = [] \<and>
         dom (cashedOut (gameState w')) \<subseteq> dom (players (gameState w'))"
proof (cases ev)
  case (InitGame env)
  with assms(4) have "w' = startNewRound env w" by (auto split: if_splits)
  with assms(1-3) show ?thesis by (simp add: books_startNewRound)
next
  case (TimerUpdate env)
  with assms(4) obtain w1 where f: "fire (UpdateMultiplier, 100) w = Some w1"
    and w': "w' = updateMultiplier env w1"
    by auto
  from books_fire [OF f] assms(1-3) show ?thesis
    unfolding w' by (simp add: books_updateMultiplier)
next
  case TimerBettingOpen
  with assms(4) obtain w1 where f: "fire (BettingOpen, 5000) w = Some w1"
    and w': "w' = bettingOpenCallback w1"
    by auto
  from books_fire [OF f] assms(1-3) show ?thesis
    unfolding w' by (simp add: bettingOpenCallback_def emit_def setTimeout_def Let_def)
next
  case (TimerNewRound env)
  with assms(4) obtain w1 where f: "fire (NewRound, 10000) w = Some w1"
    and w': "w' = newRoundCallback env w1"
    by (auto split: if_splits)
  from books_fire [OF f] assms(1-3) show ?thesis
    unfolding w' by (simp add: newRoundCallback_def books_startNewRound)
next
  case (PricesFetched btc eth)
  with assms(4) have w': "w' = pricesFetched btc eth w" by simp
  from assms(1-3) show ?thesis
    unfolding w' by (simp add: pricesFetched_def emit_def Let_def)
next
  case (BetRequest rid req)
  with assms(4) have w': "w' = placeBet rid req w" by simp
  from assms(1-3) show ?thesis
    unfolding w'
    by (auto simp: placeBet_def betAfterWallet_def betAddToGame_def emit_def Let_def
        split: sum.splits prod.splits)
next
  case (CashoutRequest sock u)
  with assms(4) have w': "w' = cashout sock u w" by simp
  from assms(1-3) show ?thesis
    unfolding w'
    by (auto simp: cashout_def cashoutRecord_def emit_def Let_def split: option.splits)
next
  case (Resume k io)
  with assms(2,4) show ?thesis by simp
next
  case (Connect sock)
  with assms(4) have w': "w' = onConnection sock w" by simp
  from assms(1-3) show ?thesis
    unfolding w' by (simp add: onConnection_def emit_def Let_def)
next
  case (PricesRequest rid)
  with assms(4) have w': "w' = getPrices rid w" by simp
  from assms(1-3) show ?thesis
    unfolding w' by (simp add: getPrices_def emit_def)
next
  case (WalletRequest rid u io)
  with assms(4) have w': "w' = walletRequest rid u io w" by simp
  from assms(1-3) show ?thesis
    unfolding w' by (simp add: walletRequest_def getOrCreateWallet_def emit_def)
qed

lemma atomic_run:
  assumes "run (initialWorld None) evs = Some w"
  shows "dom (cashedOut (gameState w)) \<subseteq> dom (players (gameState w))"
proof -
  have "db w0 = None \<Longrightarrow> suspended w0 = [] \<Longrightarrow>
        dom (cashedOut (gameState w0)) \<subseteq> dom (players (gameState w0)) \<Longrightarrow>
        run w0 evs = Some w \<Longrightarrow>
        dom (cashedOut (gameState w)) \<subseteq> dom (players (gameState w))" for w0
  proof (induction evs arbitrary: w0)
    case Nil
    then show ?case by simp
  next
    case (Cons ev evs)
    from Cons.prems(4) obtain w1 where s: "step w0 ev = Some w1" and r: "run w1 evs = Some w"
      by (auto split: option.splits)
    from atomic_step [OF Cons.prems(1-3) s] r show ?case
      by (intro Cons.IH [of w1]) simp_all
  qed
  from this [of "initialWorld None"] assms show ?thesis
    by (simp add: initialWorld_def initialGameState_def)
qed

text \<open>
  Claim C7. The claim asks that the users in \<^verbatim>\<open>cashedOut\<close> are always among those
  in \<^verbatim>\<open>players\<close>. The cashout handler reads the bet, waits for the credit, and
  writes \<^verbatim>\<open>cashedOut\<close> when it resumes. If the callback that opens the betting
  window runs in between, it replaces both mappings by empty ones (the second part of
  the claim), and the resumed handler then enters alice in the new \<^verbatim>\<open>cashedOut\<close>
  while \<^verbatim>\<open>players\<close> is empty. The first run starts the cashout during the crash
  display, the second while the round is active, at the multiplier 1.01.
\<close>

theorem cashout_outlives_bet:
  "map_option (betOf ''alice'')
     (run (initialWorld (Some emptyStore))
        (crashedRun @ [CashoutRequest 7 ''alice'', TimerBettingOpen,
                       Resume 0 (ioOk 1700000024100)]))
     = Some None \<and>
   map_option (cashoutOf ''alice'')
     (run (initialWorld (Some emptyStore))
        (crashedRun @ [CashoutRequest 7 ''alice'', TimerBettingOpen,
                       Resume 0 (ioOk 1700000024100)]))
     = Some (Some \<lparr>atMultiplier = 2.91, payout = Fin (291 / 650000), usdPayout = Fin 29.1\<rparr>) \<and>
   map_option (betOf ''alice'')
     (run (initialWorld (Some emptyStore))
        (betRun @
         [InitGame (roundAt 1700000000000), TimerUpdate (tickAt 1700000000100),
          CashoutRequest 7 ''alice'', TimerUpdate (tickAt 1700000019100), TimerBettingOpen,
          Resume 0 (ioOk 1700000024200)]))
     = Some None \<and>
   map_option (cashoutOf ''alice'')
     (run (initialWorld (Some emptyStore))
        (betRun @
         [InitGame (roundAt 1700000000000), TimerUpdate (tickAt 1700000000100),
          CashoutRequest 7 ''alice'', TimerUpdate (tickAt 1700000019100), TimerBettingOpen,
          Resume 0 (ioOk 1700000024200)]))
     = Some (Some \<lparr>atMultiplier = 2.91, payout = Fin (101 / 650000), usdPayout = Fin 10.1\<rparr>) \<and>
   players (gameState (bettingOpenCallback w)) = Map.empty \<and>
   cashedOut (gameState (bettingOpenCallback w)) = Map.empty"
  by (simp add: session_defs handler_defs observer_defs)

end
